theory Spec2Isabelle
  imports Main
begin

section \<open>Shared types\<close>

text \<open>
  Go's \<open>[]byte\<close> and \<open>string\<close> are both sequences of bytes; an Isabelle \<open>char\<close> is a
  byte, so both are modelled as \<open>string\<close>. \<open>internal.PhaseType\<close> is a string type
  (the source converts it with \<open>string(phase)\<close>).
\<close>

type_synonym bytes = string
type_synonym PhaseType = string

text \<open>
  The sentinel errors the two source files name, \<open>ErrOther\<close> for every other error
  value that wraps no error, and \<open>ErrWrap\<close> for an error that wraps another one, as
  \<open>fmt.Errorf\<close> with \<open>%w\<close> builds it (service.go does so in \<open>NewService\<close>).
\<close>

datatype error =
    ErrAccessNotPermitted
  | ErrResourceNotFound
  | ErrInvalidStateTransition
  | ErrCannotDeletePoolReferencedByWorkspaces
  | ErrWorkspaceNotAllowedToUsePool
  | ErrSubscriptionTerminated
  | ErrOther string
  | ErrWrap string error

text \<open>
  \<open>errors.Is\<close> of Go's standard library, which \<open>cancelJob\<close> calls: the error is the
  target, or it wraps an error for which this holds.
\<close>

fun errors_Is :: "error \<Rightarrow> error \<Rightarrow> bool" where
  "errors_Is (ErrWrap msg err) target = (ErrWrap msg err = target \<or> errors_Is err target)"
| "errors_Is err target = (err = target)"

section \<open>The log proxy (internal/logs/proxy.go)\<close>

subsection \<open>Chunks\<close>

record Chunk =
  Chunk_RunID :: string
  Chunk_Phase :: PhaseType
  Chunk_Data :: bytes
  Chunk_Offset :: nat

record GetChunkOptions =
  Get_RunID :: string
  Get_Phase :: PhaseType
  Get_Limit :: nat
  Get_Offset :: nat

record PutChunkOptions =
  Put_RunID :: string
  Put_Phase :: PhaseType
  Put_Data :: bytes
  Put_Offset :: nat

text \<open>
  Modelled from the spec: \<open>Chunk.IsStart\<close> is declared in package \<open>internal\<close>, which is
  not among the source files. Section 3: ``\<open>IsStart()\<close> iff \<open>Offset == 0\<close>''.
\<close>

definition IsStart :: "Chunk \<Rightarrow> bool" where
  "IsStart c = (Chunk_Offset c = 0)"

text \<open>
  Modelled from the spec: \<open>Chunk.Cut\<close> is declared in package \<open>internal\<close>, which is not
  among the source files. Section 8: ``\<open>Chunk.Cut(offset, limit).Data =
  full.Data[offset : offset+limit]\<close> (clipped to bounds)''. The spec fixes the data of
  the result only; the other fields are left as they are. Offsets and limits are
  natural numbers here: the spec says nothing about negative ones.
\<close>

definition Cut :: "Chunk \<Rightarrow> GetChunkOptions \<Rightarrow> Chunk" where
  "Cut c opts = c\<lparr>Chunk_Data := take (Get_Limit opts) (drop (Get_Offset opts) (Chunk_Data c))\<rparr>"

subsection \<open>The cache and the backing store\<close>

text \<open>
  Modelled from the spec: \<open>internal.Cache\<close> is declared in package \<open>internal\<close>, which is
  not among the source files. Section 4.8: the cache maps a key to the accumulated
  byte sequence for that key. proxy.go uses two methods: \<open>Get\<close>, whose error the proxy
  reads as ``no cache entry'', and \<open>Set\<close>, which may return an error that the proxy only
  logs. \<open>rejects\<close> says which entries \<open>Set\<close> refuses to store; a refused \<open>Set\<close> leaves the
  cache as it was.
\<close>

record Cache =
  entries :: "string \<rightharpoonup> bytes"
  rejects :: "string \<Rightarrow> bytes \<Rightarrow> bool"

definition cache_Get :: "Cache \<Rightarrow> string \<Rightarrow> error + bytes" where
  "cache_Get c key =
     (case entries c key of
        None \<Rightarrow> Inl (ErrOther ''cache miss'')
      | Some v \<Rightarrow> Inr v)"

definition cache_Set :: "Cache \<Rightarrow> string \<Rightarrow> bytes \<Rightarrow> error option \<times> Cache" where
  "cache_Set c key v =
     (if rejects c key v then (Some (ErrOther ''cache set''), c)
      else (None, c\<lparr>entries := (entries c)(key \<mapsto> v)\<rparr>))"

text \<open>
  \<open>proxydb\<close> is an interface in proxy.go: any store with these two methods. The store's
  own state has type \<open>'db\<close>; \<open>getLogs\<close> reads it, \<open>put\<close> returns the new one.
\<close>

record 'db proxydb =
  getLogs :: "'db \<Rightarrow> string \<Rightarrow> PhaseType \<Rightarrow> error + bytes"
  put :: "'db \<Rightarrow> PutChunkOptions \<Rightarrow> (error + string) \<times> 'db"

text \<open>
  The proxy struct: its cache and its store. The broker is the list of chunks a
  subscription delivers; the logger has no effect on any result and is left out.
\<close>

record 'db proxy =
  cache :: Cache
  db :: "'db"

subsection \<open>cacheKey, Start, get, put\<close>

definition cacheKey :: "string \<Rightarrow> PhaseType \<Rightarrow> string" where
  "cacheKey runID phase = runID @ ''.'' @ phase @ ''.log''"

text \<open>
  \<open>Start_logs\<close> is the part of the loop body of \<open>proxy.Start\<close> that computes \<open>logs\<close>;
  \<open>Inl err\<close> is the \<open>return err\<close> after a failed \<open>getLogs\<close>.
\<close>

definition Start_logs :: "'db proxydb \<Rightarrow> Chunk \<Rightarrow> 'db proxy \<Rightarrow> error + bytes" where
  "Start_logs P chunk p =
     (let key = cacheKey (Chunk_RunID chunk) (Chunk_Phase chunk) in
      if IsStart chunk then Inr (Chunk_Data chunk)
      else
        (case cache_Get (cache p) key of
           Inl _ \<Rightarrow> getLogs P (db p) (Chunk_RunID chunk) (Chunk_Phase chunk)
         | Inr existing \<Rightarrow> Inr (existing @ Chunk_Data chunk)))"

text \<open>
  One iteration of the loop: \<open>Inl err\<close> leaves the loop and returns \<open>err\<close>, \<open>Inr p'\<close> goes on
  with the next event. An error of \<open>cache.Set\<close> is logged and dropped.
\<close>

definition Start_chunk :: "'db proxydb \<Rightarrow> Chunk \<Rightarrow> 'db proxy \<Rightarrow> error + 'db proxy" where
  "Start_chunk P chunk p =
     (let key = cacheKey (Chunk_RunID chunk) (Chunk_Phase chunk) in
      case Start_logs P chunk p of
        Inl err \<Rightarrow> Inl err
      | Inr logs \<Rightarrow> Inr (p\<lparr>cache := snd (cache_Set (cache p) key logs)\<rparr>))"

text \<open>
  \<open>proxy.Start\<close>: the loop over the events of the subscription, given as the list of
  chunks delivered before the channel closes. It returns the error it ends with and
  the proxy it leaves behind.
\<close>

fun Start :: "'db proxydb \<Rightarrow> Chunk list \<Rightarrow> 'db proxy \<Rightarrow> error \<times> 'db proxy" where
  "Start P [] p = (ErrSubscriptionTerminated, p)"
| "Start P (chunk # sub) p =
     (case Start_chunk P chunk p of
        Inl err \<Rightarrow> (err, p)
      | Inr p' \<Rightarrow> Start P sub p')"

definition proxy_get ::
  "'db proxydb \<Rightarrow> GetChunkOptions \<Rightarrow> 'db proxy \<Rightarrow> (error + Chunk) \<times> 'db proxy" where
  "proxy_get P opts p =
     (let key = cacheKey (Get_RunID opts) (Get_Phase opts) in
      case cache_Get (cache p) key of
        Inr data \<Rightarrow>
          (Inr (Cut \<lparr>Chunk_RunID = Get_RunID opts, Chunk_Phase = Get_Phase opts,
                     Chunk_Data = data, Chunk_Offset = 0\<rparr> opts), p)
      | Inl _ \<Rightarrow>
          (case getLogs P (db p) (Get_RunID opts) (Get_Phase opts) of
             Inl err \<Rightarrow> (Inl err, p)
           | Inr data \<Rightarrow>
               (Inr (Cut \<lparr>Chunk_RunID = Get_RunID opts, Chunk_Phase = Get_Phase opts,
                          Chunk_Data = data, Chunk_Offset = 0\<rparr> opts),
                p\<lparr>cache := snd (cache_Set (cache p) key data)\<rparr>)))"

definition proxy_put ::
  "'db proxydb \<Rightarrow> PutChunkOptions \<Rightarrow> 'db proxy \<Rightarrow> error option \<times> 'db proxy" where
  "proxy_put P opts p =
     (case put P (db p) opts of
        (Inl err, d) \<Rightarrow> (Some err, p\<lparr>db := d\<rparr>)
      | (Inr _, d) \<Rightarrow> (None, p\<lparr>db := d\<rparr>))"

section \<open>The agent service (internal/agent/service.go)\<close>

subsection \<open>Data model\<close>

record JobSpec =
  Spec_RunID :: string
  Spec_Phase :: PhaseType

datatype JobStatus =
  JobUnallocated | JobAllocated | JobRunning | JobFinished | JobErrored | JobCanceled

record Job =
  Job_Spec :: JobSpec
  Job_Status :: JobStatus
  Job_AgentID :: "string option"
  Job_Signaled :: "bool option"
  Job_WorkspaceID :: string
  Job_Organization :: string

datatype AgentStatus = AgentIdle | AgentBusy | AgentUnknown | AgentErrored | AgentExited

record Agent =
  Agent_ID :: string
  Agent_Status :: AgentStatus
  Agent_MaxJobs :: nat
  Agent_CurrentJobs :: nat
  Agent_AgentPoolID :: "string option"

record Pool =
  Pool_ID :: string
  Pool_Name :: string
  Pool_Organization :: string
  Pool_OrganizationScoped :: bool
  Pool_AllowedWorkspaces :: "string list"
  Pool_AssignedWorkspaces :: "string list"


text \<open>
  The part of a run that service.go reads: \<open>run.ID\<close> and the value of \<open>run.Phase()\<close>;
  \<open>Run_ForceCanceled\<close> stands for the rest of the run, which only \<open>Job.cancel\<close> looks at.
\<close>

record Run =
  Run_ID :: string
  Run_Phase :: PhaseType
  Run_ForceCanceled :: bool

text \<open>
  The subjects a caller can be (section 9 of the spec, and the type switches of
  service.go): the manager, a registered server agent (\<open>serverAgent\<close> wraps the agent),
  a registered pool agent (\<open>poolAgent\<close>: the agent, its pool and its agent token ID),
  the two unregistered agents, a job, and a user.
\<close>

datatype subject =
    Manager
  | ServerAgent Agent
  | PoolAgent Agent Pool string
  | UnregisteredServerAgent
  | UnregisteredPoolAgent Pool string
  | JobSubject Job
  | User string

text \<open>
  Modelled from the spec: the \<open>String()\<close> methods of the subjects are not among the
  source files. Section 4.7 has ``caller must be that agent'' where service.go
  compares \<open>String()\<close> with \<open>agentID\<close>, under the comment ``an agent with an ID matching
  agentID'': \<open>String()\<close> of a registered agent is its ID. The source calls \<open>String()\<close> on
  registered agents only, and so does the model.
\<close>

fun subject_String :: "subject \<Rightarrow> string" where
  "subject_String (ServerAgent agent) = Agent_ID agent"
| "subject_String (PoolAgent agent pool tokenID) = Agent_ID agent"

text \<open>
  Modelled from the spec: \<open>internal.SubjectFromContext\<close> is not among the source files.
  Section 9: ``callers arrive as one of'' the subjects; the function yields the subject
  the context carries. service.go handles an error of it without looking at its
  value; the model returns one, as \<open>ErrOther\<close>, for a context that carries no subject.
\<close>

type_synonym ctx = "subject option"

definition SubjectFromContext :: "ctx \<Rightarrow> error + subject" where
  "SubjectFromContext c =
     (case c of
        None \<Rightarrow> Inl (ErrOther ''no subject in context'')
      | Some subject \<Rightarrow> Inr subject)"

text \<open>
  Modelled from the spec: \<open>registeredAgentFromContext\<close> is not among the source files.
  Section 9 names the ``registered server/pool agent'' among the subjects, and section
  4.7 has for \<open>startJob\<close>: ``caller must be the agent currently assigned to the job''.
  It yields the caller's subject when that is a registered agent, and an error
  otherwise; \<open>startJob\<close> turns the error into \<open>ErrAccessNotPermitted\<close>.
\<close>

definition registeredAgentFromContext :: "ctx \<Rightarrow> error + subject" where
  "registeredAgentFromContext c =
     (case SubjectFromContext c of
        Inl err \<Rightarrow> Inl err
      | Inr subject \<Rightarrow>
          (case subject of
             ServerAgent agent \<Rightarrow> Inr subject
           | PoolAgent agent pool tokenID \<Rightarrow> Inr subject
           | _ \<Rightarrow> Inl (ErrOther ''subject is not a registered agent'')))"

subsection \<open>Collaborators\<close>

text \<open>
  The calls service.go makes on the run service (\<open>phaseClient\<close>), in the order made.
\<close>

datatype call =
    StartPhaseCall string PhaseType
  | FinishPhaseCall string PhaseType bool
  | CancelCall string

datatype action = GetAgentPoolAction | DeleteAgentPoolAction

text \<open>
  What the collaborators outside of service.go answer. The \<open>phaseClient\<close> interface
  (\<open>StartPhase\<close>, \<open>FinishPhase\<close> with its \<open>Errored\<close> option, \<open>Cancel\<close>) and the authorizer
  (\<open>CanAccess\<close>) are interfaces of the source; \<open>createJobToken\<close>, \<open>Agent.setStatus\<close> and
  \<open>Job.cancel\<close> are functions of the package that are not among the source files. The
  results that service.go discards (the run a phase call returns) are left out.
\<close>

record deps =
  StartPhase :: "string \<Rightarrow> PhaseType \<Rightarrow> error option"
  FinishPhase :: "string \<Rightarrow> PhaseType \<Rightarrow> bool \<Rightarrow> error option"
  Cancel :: "string \<Rightarrow> error option"
  createJobToken :: "JobSpec \<Rightarrow> error + bytes"
  CanAccess :: "ctx \<Rightarrow> action \<Rightarrow> string \<Rightarrow> error + subject"
  setStatus :: "Agent \<Rightarrow> AgentStatus \<Rightarrow> bool \<Rightarrow> error + Agent"
  cancel :: "Job \<Rightarrow> Run \<Rightarrow> error + (bool option \<times> Job)"

subsection \<open>The store\<close>

text \<open>
  The persisted rows of the service, and the calls made so far on the run service.
\<close>

record st =
  jobs :: "Job list"
  agents :: "Agent list"
  pools :: "Pool list"
  calls :: "call list"

text \<open>
  Modelled from the spec: the store adapter (\<open>db\<close>) is not among the source files.
  Section 4.2: \<open>updateJob\<close> and \<open>updateAgent\<close> ``load row with \<open>FOR UPDATE\<close>, run the
  mutator on the in-memory value, persist iff mutator returns no error''. Section 7:
  a missing entity surfaces as \<open>ErrResourceNotFound\<close>. A mutator may call
  collaborators and hand a value to its caller (a token, a signal), so it returns the
  state it leaves and that value beside the mutated row.
\<close>

definition updateJob ::
  "JobSpec \<Rightarrow> (Job \<Rightarrow> st \<Rightarrow> (error + 'a \<times> Job) \<times> st) \<Rightarrow> st \<Rightarrow> (error + 'a \<times> Job) \<times> st" where
  "updateJob spec fn s =
     (case find (\<lambda>j. Job_Spec j = spec) (jobs s) of
        None \<Rightarrow> (Inl ErrResourceNotFound, s)
      | Some job \<Rightarrow>
          (case fn job s of
             (Inl err, s') \<Rightarrow> (Inl err, s')
           | (Inr (a, job'), s') \<Rightarrow>
               (Inr (a, job'),
                s'\<lparr>jobs := map (\<lambda>j. if Job_Spec j = spec then job' else j) (jobs s')\<rparr>)))"

text \<open>
  Modelled from the spec: \<open>db.updateAgent\<close> is not among the source files; section 4.2
  gives it the rule of \<open>updateJob\<close>. The mutator service.go passes calls no
  collaborator.
\<close>

definition updateAgent ::
  "string \<Rightarrow> (Agent \<Rightarrow> error + Agent) \<Rightarrow> st \<Rightarrow> (error + Agent) \<times> st" where
  "updateAgent agentID fn s =
     (case find (\<lambda>a. Agent_ID a = agentID) (agents s) of
        None \<Rightarrow> (Inl ErrResourceNotFound, s)
      | Some agent \<Rightarrow>
          (case fn agent of
             Inl err \<Rightarrow> (Inl err, s)
           | Inr agent' \<Rightarrow>
               (Inr agent',
                s\<lparr>agents := map (\<lambda>a. if Agent_ID a = agentID then agent' else a) (agents s)\<rparr>)))"

text \<open>
  Modelled from the spec: \<open>db.getAllocatedAndSignaledJobs\<close> is not among the source
  files. Section 4.2: it ``returns jobs either in \<open>allocated\<close> state assigned to this
  agent, or \<open>running\<close> with non-null \<open>Signaled\<close>''; section 4.7 has \<open>getAgentJobs\<close>, which
  returns this result as it is, return ``allocated or signaled jobs currently assigned
  to the agent'', so both kinds are the agent's.
\<close>

definition getAllocatedAndSignaledJobs :: "st \<Rightarrow> string \<Rightarrow> error + Job list" where
  "getAllocatedAndSignaledJobs s agentID =
     Inr (filter (\<lambda>j. Job_AgentID j = Some agentID \<and>
                       (Job_Status j = JobAllocated \<or>
                        (Job_Status j = JobRunning \<and> Job_Signaled j \<noteq> None)))
            (jobs s))"

text \<open>
  Modelled from the spec: \<open>db.getPool\<close> is not among the source files. Section 4.2:
  typed CRUD for each entity; section 7: a missing entity surfaces as
  \<open>ErrResourceNotFound\<close>.
\<close>

definition getPool :: "st \<Rightarrow> string \<Rightarrow> error + Pool" where
  "getPool s poolID =
     (case find (\<lambda>p. Pool_ID p = poolID) (pools s) of
        None \<Rightarrow> Inl ErrResourceNotFound
      | Some pool \<Rightarrow> Inr pool)"

text \<open>
  Modelled from the spec: \<open>db.deleteAgentPool\<close> is not among the source files. Section
  4.2: typed CRUD for each entity; the delete removes the pool's row.
\<close>

definition db_deleteAgentPool :: "string \<Rightarrow> st \<Rightarrow> error option \<times> st" where
  "db_deleteAgentPool poolID s =
     (None, s\<lparr>pools := filter (\<lambda>p. Pool_ID p \<noteq> poolID) (pools s)\<rparr>)"

subsection \<open>The job state machine\<close>

text \<open>
  Modelled from the spec: \<open>Job.startJob\<close> is not among the source files. Section 4.3:
  \<open>allocated\<close> goes to \<open>running\<close> on \<open>startJob()\<close>; ``any illegal transition is reported
  as \<open>ErrInvalidStateTransition\<close>''.
\<close>

definition Job_startJob :: "Job \<Rightarrow> error + Job" where
  "Job_startJob job =
     (if Job_Status job = JobAllocated then Inr (job\<lparr>Job_Status := JobRunning\<rparr>)
      else Inl ErrInvalidStateTransition)"

text \<open>
  Modelled from the spec: \<open>Job.finishJob\<close> is not among the source files. Section 4.3:
  \<open>running\<close> goes to \<open>finished\<close>, \<open>errored\<close> or \<open>canceled\<close> on \<open>finishJob\<close> with that
  status; ``any illegal transition is reported as \<open>ErrInvalidStateTransition\<close>''.
\<close>

definition Job_finishJob :: "Job \<Rightarrow> JobStatus \<Rightarrow> error + Job" where
  "Job_finishJob job to =
     (if Job_Status job = JobRunning \<and> (to = JobFinished \<or> to = JobErrored \<or> to = JobCanceled)
      then Inr (job\<lparr>Job_Status := to\<rparr>)
      else Inl ErrInvalidStateTransition)"

subsection \<open>Pools\<close>


definition deleteAgentPool :: "deps \<Rightarrow> ctx \<Rightarrow> string \<Rightarrow> st \<Rightarrow> (error + Pool) \<times> st" where
  "deleteAgentPool D c poolID s =
     (case getPool s poolID of
        Inl err \<Rightarrow> (Inl err, s)
      | Inr pool \<Rightarrow>
          (case CanAccess D c DeleteAgentPoolAction (Pool_Organization pool) of
             Inl err \<Rightarrow> (Inl err, s)
           | Inr subject \<Rightarrow>
               if length (Pool_AssignedWorkspaces pool) > 0
               then (Inl ErrCannotDeletePoolReferencedByWorkspaces, s)
               else
                 (case db_deleteAgentPool (Pool_ID pool) s of
                    (Some err, s') \<Rightarrow> (Inl err, s')
                  | (None, s') \<Rightarrow> (Inr pool, s'))))"


subsection \<open>Agents\<close>

text \<open>
  The type switch of \<open>updateAgentStatus\<close>: \<open>Inr isAgent\<close> when the subject may go on.
\<close>

definition updateAgentStatus_subject :: "subject \<Rightarrow> string \<Rightarrow> error + bool" where
  "updateAgentStatus_subject subject agentID =
     (case subject of
        Manager \<Rightarrow> Inr False
      | ServerAgent agent \<Rightarrow>
          if subject_String subject \<noteq> agentID then Inl ErrAccessNotPermitted else Inr True
      | PoolAgent agent pool tokenID \<Rightarrow>
          if subject_String subject \<noteq> agentID then Inl ErrAccessNotPermitted else Inr True
      | _ \<Rightarrow> Inl ErrAccessNotPermitted)"

definition updateAgentStatus ::
  "deps \<Rightarrow> ctx \<Rightarrow> string \<Rightarrow> AgentStatus \<Rightarrow> st \<Rightarrow> error option \<times> st" where
  "updateAgentStatus D c agentID to s =
     (case SubjectFromContext c of
        Inl err \<Rightarrow> (Some err, s)
      | Inr subject \<Rightarrow>
          (case updateAgentStatus_subject subject agentID of
             Inl err \<Rightarrow> (Some err, s)
           | Inr isAgent \<Rightarrow>
               (case updateAgent agentID (\<lambda>agent. setStatus D agent to isAgent) s of
                  (Inl err, s') \<Rightarrow> (Some err, s')
                | (Inr agent', s') \<Rightarrow> (None, s'))))"

subsection \<open>Jobs\<close>

text \<open>The mutator \<open>cancelJob\<close> hands to \<open>updateJob\<close>; the value beside the job is the signal.\<close>

definition cancelJob_mutator ::
  "deps \<Rightarrow> Run \<Rightarrow> Job \<Rightarrow> st \<Rightarrow> (error + bool option \<times> Job) \<times> st" where
  "cancelJob_mutator D run job s =
     (case cancel D job run of
        Inl err \<Rightarrow> (Inl err, s)
      | Inr (signal, job') \<Rightarrow> (Inr (signal, job'), s))"

definition cancelJob :: "deps \<Rightarrow> Run \<Rightarrow> st \<Rightarrow> error option \<times> st" where
  "cancelJob D run s =
     (let spec = \<lparr>Spec_RunID = Run_ID run, Spec_Phase = Run_Phase run\<rparr> in
      case updateJob spec (cancelJob_mutator D run) s of
        (Inl err, s') \<Rightarrow>
          if errors_Is err ErrResourceNotFound then (None, s') else (Some err, s')
      | (Inr r, s') \<Rightarrow> (None, s'))"

text \<open>
  The loop of \<open>getAgentJobs\<close> over the events of the subscription, given as the list of
  jobs delivered before the channel closes; \<open>return nil, nil\<close> is the empty list.
\<close>

fun getAgentJobs_wait :: "string \<Rightarrow> Job list \<Rightarrow> Job list" where
  "getAgentJobs_wait agentID [] = []"
| "getAgentJobs_wait agentID (job # sub) =
     (if Job_AgentID job = None \<or> Job_AgentID job \<noteq> Some agentID
      then getAgentJobs_wait agentID sub
      else
        (case Job_Status job of
           JobAllocated \<Rightarrow> [job]
         | JobRunning \<Rightarrow>
             if Job_Signaled job \<noteq> None then [job] else getAgentJobs_wait agentID sub
         | _ \<Rightarrow> getAgentJobs_wait agentID sub))"

definition getAgentJobs_subject :: "subject \<Rightarrow> string \<Rightarrow> error option" where
  "getAgentJobs_subject subject agentID =
     (case subject of
        ServerAgent agent \<Rightarrow>
          if subject_String subject \<noteq> agentID then Some ErrAccessNotPermitted else None
      | PoolAgent agent pool tokenID \<Rightarrow>
          if subject_String subject \<noteq> agentID then Some ErrAccessNotPermitted else None
      | _ \<Rightarrow> Some ErrAccessNotPermitted)"

definition getAgentJobs :: "ctx \<Rightarrow> string \<Rightarrow> Job list \<Rightarrow> st \<Rightarrow> error + Job list" where
  "getAgentJobs c agentID sub s =
     (case SubjectFromContext c of
        Inl err \<Rightarrow> Inl err
      | Inr subject \<Rightarrow>
          (case getAgentJobs_subject subject agentID of
             Some err \<Rightarrow> Inl err
           | None \<Rightarrow>
               (case getAllocatedAndSignaledJobs s agentID of
                  Inl err \<Rightarrow> Inl err
                | Inr js \<Rightarrow>
                    if length js > 0 then Inr js
                    else Inr (getAgentJobs_wait agentID sub))))"

text \<open>The mutator \<open>startJob\<close> hands to \<open>updateJob\<close>; the value beside the job is the token.\<close>

definition startJob_mutator ::
  "deps \<Rightarrow> subject \<Rightarrow> JobSpec \<Rightarrow> Job \<Rightarrow> st \<Rightarrow> (error + bytes \<times> Job) \<times> st" where
  "startJob_mutator D subject spec job s =
     (if Job_AgentID job = None \<or> Job_AgentID job \<noteq> Some (subject_String subject)
      then (Inl ErrAccessNotPermitted, s)
      else
        (case Job_startJob job of
           Inl err \<Rightarrow> (Inl err, s)
         | Inr job' \<Rightarrow>
             (let s' = s\<lparr>calls := calls s @ [StartPhaseCall (Spec_RunID spec) (Spec_Phase spec)]\<rparr> in
              case StartPhase D (Spec_RunID spec) (Spec_Phase spec) of
                Some err \<Rightarrow> (Inl err, s')
              | None \<Rightarrow>
                  (case createJobToken D spec of
                     Inl err \<Rightarrow> (Inl err, s')
                   | Inr token \<Rightarrow> (Inr (token, job'), s')))))"

definition startJob :: "deps \<Rightarrow> ctx \<Rightarrow> JobSpec \<Rightarrow> st \<Rightarrow> (error + bytes) \<times> st" where
  "startJob D c spec s =
     (case registeredAgentFromContext c of
        Inl err \<Rightarrow> (Inl ErrAccessNotPermitted, s)
      | Inr subject \<Rightarrow>
          (case updateJob spec (startJob_mutator D subject spec) s of
             (Inl err, s') \<Rightarrow> (Inl err, s')
           | (Inr (token, job'), s') \<Rightarrow> (Inr token, s')))"

record finishJobOptions =
  Finish_Status :: JobStatus
  Finish_Error :: string

text \<open>
  The switch of the mutator of \<open>finishJob\<close>: the call it makes on the run service, if
  any, and the error of that call.
\<close>

definition finishJob_phase :: "deps \<Rightarrow> JobSpec \<Rightarrow> finishJobOptions \<Rightarrow> st \<Rightarrow> error option \<times> st" where
  "finishJob_phase D spec opts s =
     (if Finish_Status opts = JobFinished \<or> Finish_Status opts = JobErrored
      then (FinishPhase D (Spec_RunID spec) (Spec_Phase spec) (Finish_Status opts = JobErrored),
            s\<lparr>calls := calls s @ [FinishPhaseCall (Spec_RunID spec) (Spec_Phase spec)
                                   (Finish_Status opts = JobErrored)]\<rparr>)
      else if Finish_Status opts = JobCanceled
      then (Cancel D (Spec_RunID spec), s\<lparr>calls := calls s @ [CancelCall (Spec_RunID spec)]\<rparr>)
      else (None, s))"

definition finishJob_mutator ::
  "deps \<Rightarrow> JobSpec \<Rightarrow> finishJobOptions \<Rightarrow> Job \<Rightarrow> st \<Rightarrow> (error + unit \<times> Job) \<times> st" where
  "finishJob_mutator D spec opts job s =
     (case finishJob_phase D spec opts s of
        (Some err, s') \<Rightarrow> (Inl err, s')
      | (None, s') \<Rightarrow>
          (case Job_finishJob job (Finish_Status opts) of
             Inl err \<Rightarrow> (Inl err, s')
           | Inr job' \<Rightarrow> (Inr ((), job'), s')))"

definition finishJob ::
  "deps \<Rightarrow> ctx \<Rightarrow> JobSpec \<Rightarrow> finishJobOptions \<Rightarrow> st \<Rightarrow> error option \<times> st" where
  "finishJob D c spec opts s =
     (case SubjectFromContext c of
        Inl err \<Rightarrow> (Some ErrAccessNotPermitted, s)
      | Inr subject \<Rightarrow>
          (case subject of
             JobSubject j \<Rightarrow>
               (case updateJob spec (finishJob_mutator D spec opts) s of
                  (Inl err, s') \<Rightarrow> (Some err, s')
                | (Inr r, s') \<Rightarrow> (None, s'))
           | _ \<Rightarrow> (Some ErrAccessNotPermitted, s)))"

section \<open>Concrete inputs\<close>

text \<open>
  The scenarios of section 8 of the spec as values, to run the definitions on: agent
  \<open>A\<close> holding the plan job of run \<open>R\<close>, a second agent \<open>B\<close>, workspace \<open>W1\<close> and pool
  \<open>P\<close> of organization \<open>O\<close>, and collaborators that answer without error
  (\<open>deps0\<close>) or whose run service fails (\<open>deps_failing\<close>).
\<close>

definition agentA :: Agent where
  "agentA = \<lparr>Agent_ID = ''agent-A'', Agent_Status = AgentIdle, Agent_MaxJobs = 2,
             Agent_CurrentJobs = 0, Agent_AgentPoolID = None\<rparr>"

definition agentB :: Agent where
  "agentB = \<lparr>Agent_ID = ''agent-B'', Agent_Status = AgentIdle, Agent_MaxJobs = 1,
             Agent_CurrentJobs = 0, Agent_AgentPoolID = None\<rparr>"

definition jobJ1 :: Job where
  "jobJ1 = \<lparr>Job_Spec = \<lparr>Spec_RunID = ''run-R'', Spec_Phase = ''plan''\<rparr>,
            Job_Status = JobAllocated, Job_AgentID = Some ''agent-A'', Job_Signaled = None,
            Job_WorkspaceID = ''ws-W1'', Job_Organization = ''org-O''\<rparr>"

definition runR :: Run where
  "runR = \<lparr>Run_ID = ''run-R'', Run_Phase = ''plan'', Run_ForceCanceled = True\<rparr>"

definition runQ :: Run where
  "runQ = \<lparr>Run_ID = ''run-Q'', Run_Phase = ''plan'', Run_ForceCanceled = False\<rparr>"

definition poolP :: Pool where
  "poolP = \<lparr>Pool_ID = ''pool-P'', Pool_Name = ''P'', Pool_Organization = ''org-O'',
            Pool_OrganizationScoped = False, Pool_AllowedWorkspaces = [],
            Pool_AssignedWorkspaces = []\<rparr>"


text \<open>
  In \<open>deps0\<close> the authorizer lets every user in and nobody else; \<open>setStatus\<close> accepts
  every status; \<open>cancel\<close> signals a running job and refuses any other.
\<close>

definition deps0 :: deps where
  "deps0 =
     \<lparr>StartPhase = (\<lambda>runID phase. None),
      FinishPhase = (\<lambda>runID phase errored. None),
      Cancel = (\<lambda>runID. None),
      createJobToken = (\<lambda>spec. Inr (''token.'' @ Spec_RunID spec @ ''.'' @ Spec_Phase spec)),
      CanAccess = (\<lambda>c act org. case c of
                     Some (User u) \<Rightarrow> Inr (User u)
                   | _ \<Rightarrow> Inl ErrAccessNotPermitted),
      setStatus = (\<lambda>agent to isAgent. Inr (agent\<lparr>Agent_Status := to\<rparr>)),
      cancel = (\<lambda>job run.
                  if Job_Status job = JobRunning
                  then Inr (Some (Run_ForceCanceled run),
                            job\<lparr>Job_Signaled := Some (Run_ForceCanceled run)\<rparr>)
                  else Inl ErrInvalidStateTransition)\<rparr>"

definition deps_failing :: deps where
  "deps_failing =
     deps0\<lparr>StartPhase := (\<lambda>runID phase. Some (ErrOther ''run service unavailable'')),
           FinishPhase := (\<lambda>runID phase errored. Some (ErrOther ''run service unavailable''))\<rparr>"

definition st0 :: st where
  "st0 = \<lparr>jobs = [jobJ1], agents = [agentA], pools = [poolP], calls = []\<rparr>"

text \<open>The rows once agent \<open>A\<close> has started the job.\<close>

definition st1 :: st where
  "st1 = st0\<lparr>jobs := [jobJ1\<lparr>Job_Status := JobRunning\<rparr>],
             calls := [StartPhaseCall ''run-R'' ''plan'']\<rparr>"

text \<open>
  A log store kept in memory, as an instance of \<open>proxydb\<close>: the bytes written so far
  for each run and phase; \<open>put\<close> appends.
\<close>

definition logstore :: "(string \<times> PhaseType \<rightharpoonup> bytes) proxydb" where
  "logstore =
     \<lparr>getLogs = (\<lambda>d runID phase. case d (runID, phase) of
                    None \<Rightarrow> Inl ErrResourceNotFound
                  | Some logs \<Rightarrow> Inr logs),
      put = (\<lambda>d opts.
               (Inr ''chunk'',
                d((Put_RunID opts, Put_Phase opts) \<mapsto>
                    (case d (Put_RunID opts, Put_Phase opts) of
                       None \<Rightarrow> Put_Data opts
                     | Some logs \<Rightarrow> logs @ Put_Data opts))))\<rparr>"

definition proxy0 :: "(string \<times> PhaseType \<rightharpoonup> bytes) proxy" where
  "proxy0 =
     \<lparr>cache = \<lparr>entries = [''run-R.plan.log'' \<mapsto> ''stale''], rejects = (\<lambda>key v. False)\<rparr>,
      db = [(''run-R'', ''apply'') \<mapsto> ''initapply'']\<rparr>"

section \<open>The store's update rule\<close>

lemma updateJob_not_found:
  "find (\<lambda>j. Job_Spec j = spec) (jobs s) = None \<Longrightarrow>
   updateJob spec fn s = (Inl ErrResourceNotFound, s)"
  by (simp add: updateJob_def)

lemma updateJob_found:
  "find (\<lambda>j. Job_Spec j = spec) (jobs s) = Some job \<Longrightarrow>
   updateJob spec fn s =
     (case fn job s of
        (Inl err, s') \<Rightarrow> (Inl err, s')
      | (Inr (a, job'), s') \<Rightarrow>
          (Inr (a, job'), s'\<lparr>jobs := map (\<lambda>j. if Job_Spec j = spec then job' else j) (jobs s')\<rparr>))"
  by (simp add: updateJob_def)

text \<open>Facts about the concrete inputs, used to run the service on them.\<close>

lemma jobJ1_fields:
  "Job_Spec jobJ1 = \<lparr>Spec_RunID = ''run-R'', Spec_Phase = ''plan''\<rparr>"
  "Job_AgentID jobJ1 = Some ''agent-A''"
  "Job_Status jobJ1 = JobAllocated"
  "Job_Signaled jobJ1 = None"
  by (simp_all add: jobJ1_def)

lemma st0_row: "find (\<lambda>j. Job_Spec j = Job_Spec jobJ1) (jobs st0) = Some jobJ1"
  by (simp add: st0_def)

lemma st1_row:
  "find (\<lambda>j. Job_Spec j = Job_Spec jobJ1) (jobs st1) = Some (jobJ1\<lparr>Job_Status := JobRunning\<rparr>)"
  by (simp add: st1_def)

lemma registered_agents:
  "registeredAgentFromContext (Some (ServerAgent agentA)) = Inr (ServerAgent agentA)"
  "registeredAgentFromContext (Some (ServerAgent agentB)) = Inr (ServerAgent agentB)"
  "registeredAgentFromContext (Some (User ''alice'')) =
     Inl (ErrOther ''subject is not a registered agent'')"
  by (simp_all add: registeredAgentFromContext_def SubjectFromContext_def)

section \<open>Starting a job\<close>

lemma startJob_mutator_keeps_rows:
  "startJob_mutator D subject spec job s = (r, s') \<Longrightarrow>
   jobs s' = jobs s \<and> agents s' = agents s \<and> pools s' = pools s"
  by (auto simp: startJob_mutator_def Let_def split: if_splits sum.splits option.splits)

lemma startJob_mutator_ok:
  "startJob_mutator D subject spec job s = (Inr (token, job'), s') \<Longrightarrow>
   Job_AgentID job = Some (subject_String subject) \<and> Job_Status job = JobAllocated \<and>
   job' = job\<lparr>Job_Status := JobRunning\<rparr> \<and>
   StartPhase D (Spec_RunID spec) (Spec_Phase spec) = None \<and>
   createJobToken D spec = Inr token \<and>
   s' = s\<lparr>calls := calls s @ [StartPhaseCall (Spec_RunID spec) (Spec_Phase spec)]\<rparr>"
  by (auto simp: startJob_mutator_def Job_startJob_def Let_def split: if_splits sum.splits option.splits)

lemma startJob_unregistered:
  "registeredAgentFromContext c = Inl e \<Longrightarrow> startJob D c spec s = (Inl ErrAccessNotPermitted, s)"
  by (simp add: startJob_def)

lemma startJob_not_assigned:
  assumes "registeredAgentFromContext c = Inr subject"
    and "find (\<lambda>j. Job_Spec j = spec) (jobs s) = Some job"
    and "Job_AgentID job = None \<or> Job_AgentID job \<noteq> Some (subject_String subject)"
  shows "startJob D c spec s = (Inl ErrAccessNotPermitted, s)"
proof -
  from assms(3) have "startJob_mutator D subject spec job s = (Inl ErrAccessNotPermitted, s)"
    by (auto simp: startJob_mutator_def)
  with assms(1,2) show ?thesis
    by (simp add: startJob_def updateJob_found)
qed

lemma startJob_started:
  assumes "registeredAgentFromContext c = Inr subject"
    and "find (\<lambda>j. Job_Spec j = spec) (jobs s) = Some job"
    and "Job_AgentID job = Some (subject_String subject)"
    and "Job_Status job = JobAllocated"
    and "StartPhase D (Spec_RunID spec) (Spec_Phase spec) = None"
    and "createJobToken D spec = Inr token"
  shows "startJob D c spec s =
        (Inr token,
         s\<lparr>calls := calls s @ [StartPhaseCall (Spec_RunID spec) (Spec_Phase spec)],
           jobs := map (\<lambda>j. if Job_Spec j = spec then job\<lparr>Job_Status := JobRunning\<rparr> else j)
                     (jobs s)\<rparr>)"
proof -
  from assms(3-6) have "startJob_mutator D subject spec job s =
      (Inr (token, job\<lparr>Job_Status := JobRunning\<rparr>),
       s\<lparr>calls := calls s @ [StartPhaseCall (Spec_RunID spec) (Spec_Phase spec)]\<rparr>)"
    by (simp add: startJob_mutator_def Job_startJob_def Let_def)
  with assms(1,2) show ?thesis
    by (simp add: startJob_def updateJob_found)
qed

lemma startJob_token_only_if:
  assumes ok: "startJob D c spec s = (Inr tok, s1)"
  shows "createJobToken D spec = Inr tok \<and>
        calls s1 = calls s @ [StartPhaseCall (Spec_RunID spec) (Spec_Phase spec)] \<and>
        (\<exists>subject job. registeredAgentFromContext c = Inr subject \<and>
           find (\<lambda>j. Job_Spec j = spec) (jobs s) = Some job \<and>
           Job_AgentID job = Some (subject_String subject) \<and>
           Job_Status job = JobAllocated \<and>
           jobs s1 = map (\<lambda>j. if Job_Spec j = spec then job\<lparr>Job_Status := JobRunning\<rparr> else j)
                       (jobs s))"
proof -
  from ok obtain subject where subj: "registeredAgentFromContext c = Inr subject"
    by (cases "registeredAgentFromContext c") (auto simp: startJob_def)
  from ok subj obtain job where job: "find (\<lambda>j. Job_Spec j = spec) (jobs s) = Some job"
    by (cases "find (\<lambda>j. Job_Spec j = spec) (jobs s)") (auto simp: startJob_def updateJob_not_found)
  from ok subj job obtain job' s' where
    m: "startJob_mutator D subject spec job s = (Inr (tok, job'), s')" and
    s1: "s1 = s'\<lparr>jobs := map (\<lambda>j. if Job_Spec j = spec then job' else j) (jobs s')\<rparr>"
    by (auto simp: startJob_def updateJob_found split: prod.splits sum.splits)
  note f = startJob_mutator_ok [OF m]
  from f s1 have "calls s1 = calls s @ [StartPhaseCall (Spec_RunID spec) (Spec_Phase spec)]"
    by simp
  moreover from f s1 have
    "jobs s1 = map (\<lambda>j. if Job_Spec j = spec then job\<lparr>Job_Status := JobRunning\<rparr> else j) (jobs s)"
    by simp
  ultimately show ?thesis
    using f subj job by blast
qed

lemma startJob_error_keeps_rows:
  assumes bad: "startJob D c spec s = (Inl err, s2)"
  shows "jobs s2 = jobs s \<and> agents s2 = agents s \<and> pools s2 = pools s"
proof (cases "registeredAgentFromContext c")
  case (Inl e')
  with bad show ?thesis by (simp add: startJob_def)
next
  case (Inr subject)
  show ?thesis
  proof (cases "find (\<lambda>j. Job_Spec j = spec) (jobs s)")
    case None
    with bad Inr show ?thesis by (simp add: startJob_def updateJob_not_found)
  next
    case (Some job)
    obtain r s' where m: "startJob_mutator D subject spec job s = (r, s')"
      by (cases "startJob_mutator D subject spec job s")
    with bad Inr Some have "s2 = s'"
      by (auto simp: startJob_def updateJob_found split: sum.splits prod.splits)
    with startJob_mutator_keeps_rows [OF m] show ?thesis by simp
  qed
qed

lemma startJob_assigned:
  assumes "registeredAgentFromContext c = Inr subject"
    and "find (\<lambda>j. Job_Spec j = spec) (jobs s) = Some job"
    and "Job_AgentID job = Some (subject_String subject)"
  shows "startJob D c spec s =
     (if Job_Status job \<noteq> JobAllocated then (Inl ErrInvalidStateTransition, s)
      else
        (case StartPhase D (Spec_RunID spec) (Spec_Phase spec) of
           Some err \<Rightarrow>
             (Inl err, s\<lparr>calls := calls s @ [StartPhaseCall (Spec_RunID spec) (Spec_Phase spec)]\<rparr>)
         | None \<Rightarrow>
             (case createJobToken D spec of
                Inl err \<Rightarrow>
                  (Inl err,
                   s\<lparr>calls := calls s @ [StartPhaseCall (Spec_RunID spec) (Spec_Phase spec)]\<rparr>)
              | Inr token \<Rightarrow>
                  (Inr token,
                   s\<lparr>calls := calls s @ [StartPhaseCall (Spec_RunID spec) (Spec_Phase spec)],
                     jobs := map (\<lambda>j. if Job_Spec j = spec then job\<lparr>Job_Status := JobRunning\<rparr>
                                       else j) (jobs s)\<rparr>))))"
  using assms
  by (simp add: startJob_def updateJob_found startJob_mutator_def Job_startJob_def Let_def
      split: option.splits sum.splits)

lemma startJob_no_row:
  "registeredAgentFromContext c = Inr subject \<Longrightarrow>
   find (\<lambda>j. Job_Spec j = spec) (jobs s) = None \<Longrightarrow>
   startJob D c spec s = (Inl ErrResourceNotFound, s)"
  by (simp add: startJob_def updateJob_not_found)

text \<open>
  Claim C1. \<open>startJob\<close> returns \<open>ErrAccessNotPermitted\<close> when the caller is not a
  registered agent, and when the job's \<open>AgentID\<close> is nil or differs from the caller's
  ID. When the caller is the assigned agent and no step of the mutator fails, the
  job is persisted as running, \<open>StartPhase\<close> has been called exactly once for the job's
  run and phase, and the token returned is the one \<open>createJobToken\<close> minted for the
  spec; a token is returned in no other case. Each step of the mutator that fails
  makes \<open>startJob\<close> return that step's error with the persisted rows as they were:
  \<open>Job.startJob\<close> refusing a job that is not allocated (no call is made), \<open>StartPhase\<close>
  failing, and \<open>createJobToken\<close> failing (one call has been made in both cases). The
  same holds when the job row is missing, and whenever \<open>startJob\<close> returns an error.
\<close>

theorem startJob_contract:
  "(registeredAgentFromContext c = Inl e \<longrightarrow>
      startJob D c spec s = (Inl ErrAccessNotPermitted, s))
   \<and> (registeredAgentFromContext c = Inr subject \<and>
        find (\<lambda>j. Job_Spec j = spec) (jobs s) = Some job \<and>
        (Job_AgentID job = None \<or> Job_AgentID job \<noteq> Some (subject_String subject)) \<longrightarrow>
      startJob D c spec s = (Inl ErrAccessNotPermitted, s))
   \<and> (registeredAgentFromContext c = Inr subject \<and>
        find (\<lambda>j. Job_Spec j = spec) (jobs s) = Some job \<and>
        Job_AgentID job = Some (subject_String subject) \<and>
        Job_Status job = JobAllocated \<and>
        StartPhase D (Spec_RunID spec) (Spec_Phase spec) = None \<and>
        createJobToken D spec = Inr token \<longrightarrow>
      startJob D c spec s =
        (Inr token,
         s\<lparr>calls := calls s @ [StartPhaseCall (Spec_RunID spec) (Spec_Phase spec)],
           jobs := map (\<lambda>j. if Job_Spec j = spec then job\<lparr>Job_Status := JobRunning\<rparr> else j)
                     (jobs s)\<rparr>))
   \<and> (startJob D c spec s = (Inr tok, s1) \<longrightarrow>
        createJobToken D spec = Inr tok \<and>
        StartPhase D (Spec_RunID spec) (Spec_Phase spec) = None \<and>
        calls s1 = calls s @ [StartPhaseCall (Spec_RunID spec) (Spec_Phase spec)] \<and>
        (\<exists>subject job. registeredAgentFromContext c = Inr subject \<and>
           find (\<lambda>j. Job_Spec j = spec) (jobs s) = Some job \<and>
           Job_AgentID job = Some (subject_String subject) \<and>
           Job_Status job = JobAllocated \<and>
           jobs s1 = map (\<lambda>j. if Job_Spec j = spec then job\<lparr>Job_Status := JobRunning\<rparr> else j)
                       (jobs s)))
   \<and> (startJob D c spec s = (Inl err, s2) \<longrightarrow>
        jobs s2 = jobs s \<and> agents s2 = agents s \<and> pools s2 = pools s)
   \<and> (registeredAgentFromContext c = Inr subject \<and>
        find (\<lambda>j. Job_Spec j = spec) (jobs s) = Some job \<and>
        Job_AgentID job = Some (subject_String subject) \<and>
        Job_Status job \<noteq> JobAllocated \<longrightarrow>
      startJob D c spec s = (Inl ErrInvalidStateTransition, s))
   \<and> (registeredAgentFromContext c = Inr subject \<and>
        find (\<lambda>j. Job_Spec j = spec) (jobs s) = Some job \<and>
        Job_AgentID job = Some (subject_String subject) \<and>
        Job_Status job = JobAllocated \<and>
        StartPhase D (Spec_RunID spec) (Spec_Phase spec) = Some perr \<longrightarrow>
      startJob D c spec s =
        (Inl perr, s\<lparr>calls := calls s @ [StartPhaseCall (Spec_RunID spec) (Spec_Phase spec)]\<rparr>))
   \<and> (registeredAgentFromContext c = Inr subject \<and>
        find (\<lambda>j. Job_Spec j = spec) (jobs s) = Some job \<and>
        Job_AgentID job = Some (subject_String subject) \<and>
        Job_Status job = JobAllocated \<and>
        StartPhase D (Spec_RunID spec) (Spec_Phase spec) = None \<and>
        createJobToken D spec = Inl terr \<longrightarrow>
      startJob D c spec s =
        (Inl terr, s\<lparr>calls := calls s @ [StartPhaseCall (Spec_RunID spec) (Spec_Phase spec)]\<rparr>))
   \<and> (registeredAgentFromContext c = Inr subject \<and>
        find (\<lambda>j. Job_Spec j = spec) (jobs s) = None \<longrightarrow>
      startJob D c spec s = (Inl ErrResourceNotFound, s))"
proof -
  have failing:
    "registeredAgentFromContext c = Inr subject \<and>
        find (\<lambda>j. Job_Spec j = spec) (jobs s) = Some job \<and>
        Job_AgentID job = Some (subject_String subject) \<and>
        Job_Status job \<noteq> JobAllocated \<longrightarrow>
      startJob D c spec s = (Inl ErrInvalidStateTransition, s)"
    "registeredAgentFromContext c = Inr subject \<and>
        find (\<lambda>j. Job_Spec j = spec) (jobs s) = Some job \<and>
        Job_AgentID job = Some (subject_String subject) \<and>
        Job_Status job = JobAllocated \<and>
        StartPhase D (Spec_RunID spec) (Spec_Phase spec) = Some perr \<longrightarrow>
      startJob D c spec s =
        (Inl perr, s\<lparr>calls := calls s @ [StartPhaseCall (Spec_RunID spec) (Spec_Phase spec)]\<rparr>)"
    "registeredAgentFromContext c = Inr subject \<and>
        find (\<lambda>j. Job_Spec j = spec) (jobs s) = Some job \<and>
        Job_AgentID job = Some (subject_String subject) \<and>
        Job_Status job = JobAllocated \<and>
        StartPhase D (Spec_RunID spec) (Spec_Phase spec) = None \<and>
        createJobToken D spec = Inl terr \<longrightarrow>
      startJob D c spec s =
        (Inl terr, s\<lparr>calls := calls s @ [StartPhaseCall (Spec_RunID spec) (Spec_Phase spec)]\<rparr>)"
    using startJob_assigned [of c subject spec s job D] by simp_all
  have phase_ok: "startJob D c spec s = (Inr tok, s1) \<longrightarrow>
      StartPhase D (Spec_RunID spec) (Spec_Phase spec) = None"
  proof
    assume ok: "startJob D c spec s = (Inr tok, s1)"
    from startJob_token_only_if [OF ok] obtain subject' job' where
      "registeredAgentFromContext c = Inr subject'"
      "find (\<lambda>j. Job_Spec j = spec) (jobs s) = Some job'"
      "Job_AgentID job' = Some (subject_String subject')"
      "Job_Status job' = JobAllocated"
      by blast
    from startJob_assigned [OF this(1-3), of D] this(4) ok
    show "StartPhase D (Spec_RunID spec) (Spec_Phase spec) = None"
      by (cases "StartPhase D (Spec_RunID spec) (Spec_Phase spec)") simp_all
  qed
  from failing phase_ok
    startJob_unregistered [of c e D spec s]
    startJob_not_assigned [of c subject spec s job D]
    startJob_started [of c subject spec s job D token]
    startJob_token_only_if [of D c spec s tok s1]
    startJob_error_keeps_rows [of D c spec s err s2]
    startJob_no_row [of c subject spec s D]
  show ?thesis by blast
qed

theorem startJob_contract_witness:
  "startJob deps0 (Some (User ''alice'')) (Job_Spec jobJ1) st0 = (Inl ErrAccessNotPermitted, st0)
   \<and> startJob deps0 (Some (ServerAgent agentB)) (Job_Spec jobJ1) st0 =
       (Inl ErrAccessNotPermitted, st0)
   \<and> startJob deps0 (Some (ServerAgent agentA)) (Job_Spec jobJ1) st0 =
       (Inr ''token.run-R.plan'',
        st0\<lparr>calls := calls st0 @ [StartPhaseCall ''run-R'' ''plan''],
            jobs := [jobJ1\<lparr>Job_Status := JobRunning\<rparr>]\<rparr>)
   \<and> createJobToken deps0 (Job_Spec jobJ1) = Inr ''token.run-R.plan''
   \<and> StartPhase deps0 ''run-R'' ''plan'' = None
   \<and> startJob deps_failing (Some (ServerAgent agentA)) (Job_Spec jobJ1) st0 =
       (Inl (ErrOther ''run service unavailable''),
        st0\<lparr>calls := calls st0 @ [StartPhaseCall ''run-R'' ''plan'']\<rparr>)
   \<and> jobs (st0\<lparr>calls := calls st0 @ [StartPhaseCall ''run-R'' ''plan'']\<rparr>) = jobs st0
   \<and> startJob deps0 (Some (ServerAgent agentA)) (Job_Spec jobJ1) st1 =
       (Inl ErrInvalidStateTransition, st1)
   \<and> startJob (deps0\<lparr>createJobToken := (\<lambda>spec. Inl (ErrOther ''no signing key''))\<rparr>)
        (Some (ServerAgent agentA)) (Job_Spec jobJ1) st0 =
       (Inl (ErrOther ''no signing key''),
        st0\<lparr>calls := calls st0 @ [StartPhaseCall ''run-R'' ''plan'']\<rparr>)
   \<and> startJob deps0 (Some (ServerAgent agentA)) \<lparr>Spec_RunID = ''run-Q'', Spec_Phase = ''plan''\<rparr> st0 =
       (Inl ErrResourceNotFound, st0)"
proof -
  let ?tokenless = "deps0\<lparr>createJobToken := (\<lambda>spec. Inl (ErrOther ''no signing key''))\<rparr>"
  have idA: "subject_String (ServerAgent agentA) = ''agent-A''"
    and idB: "subject_String (ServerAgent agentB) = ''agent-B''"
    by (simp_all add: agentA_def agentB_def)
  have phase_fails: "StartPhase deps_failing ''run-R'' ''plan'' = Some (ErrOther ''run service unavailable'')"
    by (simp add: deps_failing_def)
  have tokenless: "StartPhase ?tokenless ''run-R'' ''plan'' = None"
    "createJobToken ?tokenless (Job_Spec jobJ1) = Inl (ErrOther ''no signing key'')"
    by (simp_all add: deps0_def)
  have running: "Job_AgentID (jobJ1\<lparr>Job_Status := JobRunning\<rparr>) = Some ''agent-A''"
    "Job_Status (jobJ1\<lparr>Job_Status := JobRunning\<rparr>) \<noteq> JobAllocated"
    by (simp_all add: jobJ1_fields)
  have no_row: "find (\<lambda>j. Job_Spec j = \<lparr>Spec_RunID = ''run-Q'', Spec_Phase = ''plan''\<rparr>) (jobs st0) = None"
    by (simp add: st0_def jobJ1_fields)
  have c1: "startJob deps0 (Some (User ''alice'')) (Job_Spec jobJ1) st0 =
      (Inl ErrAccessNotPermitted, st0)"
    using startJob_contract [THEN conjunct1, of "Some (User ''alice'')" _ deps0 "Job_Spec jobJ1" st0]
      registered_agents(3)
    by simp
  have c2: "startJob deps0 (Some (ServerAgent agentB)) (Job_Spec jobJ1) st0 =
      (Inl ErrAccessNotPermitted, st0)"
    using startJob_contract [THEN conjunct2, THEN conjunct1,
        of "Some (ServerAgent agentB)" "ServerAgent agentB" "Job_Spec jobJ1" st0 jobJ1 deps0]
      registered_agents(2) st0_row jobJ1_fields(2) idB
    by simp
  have c3: "startJob deps0 (Some (ServerAgent agentA)) (Job_Spec jobJ1) st0 =
       (Inr ''token.run-R.plan'',
        st0\<lparr>calls := calls st0 @ [StartPhaseCall ''run-R'' ''plan''],
            jobs := [jobJ1\<lparr>Job_Status := JobRunning\<rparr>]\<rparr>)"
    using startJob_contract [THEN conjunct2, THEN conjunct2, THEN conjunct1,
        of "Some (ServerAgent agentA)" "ServerAgent agentA" "Job_Spec jobJ1" st0 jobJ1 deps0
           "''token.run-R.plan''"]
      registered_agents(1) st0_row jobJ1_fields(2,3) idA
    by (simp add: jobJ1_fields(1) deps0_def) (simp add: st0_def jobJ1_fields(1))
  have c4: "createJobToken deps0 (Job_Spec jobJ1) = Inr ''token.run-R.plan'' \<and>
      StartPhase deps0 ''run-R'' ''plan'' = None"
    using startJob_contract [THEN conjunct2, THEN conjunct2, THEN conjunct2, THEN conjunct1,
        of deps0 "Some (ServerAgent agentA)" "Job_Spec jobJ1" st0 "''token.run-R.plan''"
           "st0\<lparr>calls := calls st0 @ [StartPhaseCall ''run-R'' ''plan''],
                jobs := [jobJ1\<lparr>Job_Status := JobRunning\<rparr>]\<rparr>"] c3
    by (simp add: jobJ1_fields(1))
  have c5: "startJob deps_failing (Some (ServerAgent agentA)) (Job_Spec jobJ1) st0 =
       (Inl (ErrOther ''run service unavailable''),
        st0\<lparr>calls := calls st0 @ [StartPhaseCall ''run-R'' ''plan'']\<rparr>)"
    using startJob_contract [THEN conjunct2, THEN conjunct2, THEN conjunct2, THEN conjunct2,
        THEN conjunct2, THEN conjunct2, THEN conjunct1,
        of "Some (ServerAgent agentA)" "ServerAgent agentA" "Job_Spec jobJ1" st0 jobJ1 deps_failing
           "ErrOther ''run service unavailable''"]
      registered_agents(1) st0_row jobJ1_fields(2,3) idA phase_fails
    by (simp add: jobJ1_fields(1))
  have c6: "jobs (st0\<lparr>calls := calls st0 @ [StartPhaseCall ''run-R'' ''plan'']\<rparr>) = jobs st0"
    using startJob_contract [THEN conjunct2, THEN conjunct2, THEN conjunct2, THEN conjunct2,
        THEN conjunct1,
        of deps_failing "Some (ServerAgent agentA)" "Job_Spec jobJ1" st0
           "ErrOther ''run service unavailable''"
           "st0\<lparr>calls := calls st0 @ [StartPhaseCall ''run-R'' ''plan'']\<rparr>"] c5
    by simp
  have c7: "startJob deps0 (Some (ServerAgent agentA)) (Job_Spec jobJ1) st1 =
       (Inl ErrInvalidStateTransition, st1)"
    using startJob_contract [THEN conjunct2, THEN conjunct2, THEN conjunct2, THEN conjunct2,
        THEN conjunct2, THEN conjunct1,
        of "Some (ServerAgent agentA)" "ServerAgent agentA" "Job_Spec jobJ1" st1
           "jobJ1\<lparr>Job_Status := JobRunning\<rparr>" deps0]
      registered_agents(1) st1_row running idA
    by simp
  have c8: "startJob ?tokenless (Some (ServerAgent agentA)) (Job_Spec jobJ1) st0 =
       (Inl (ErrOther ''no signing key''),
        st0\<lparr>calls := calls st0 @ [StartPhaseCall ''run-R'' ''plan'']\<rparr>)"
    using startJob_contract [THEN conjunct2, THEN conjunct2, THEN conjunct2, THEN conjunct2,
        THEN conjunct2, THEN conjunct2, THEN conjunct2, THEN conjunct1,
        of "Some (ServerAgent agentA)" "ServerAgent agentA" "Job_Spec jobJ1" st0 jobJ1 ?tokenless
           "ErrOther ''no signing key''"]
      registered_agents(1) st0_row jobJ1_fields(2,3) idA tokenless
    by (simp add: jobJ1_fields(1))
  have c9: "startJob deps0 (Some (ServerAgent agentA)) \<lparr>Spec_RunID = ''run-Q'', Spec_Phase = ''plan''\<rparr>
      st0 = (Inl ErrResourceNotFound, st0)"
    using startJob_contract [THEN conjunct2, THEN conjunct2, THEN conjunct2, THEN conjunct2,
        THEN conjunct2, THEN conjunct2, THEN conjunct2, THEN conjunct2,
        of "Some (ServerAgent agentA)" "ServerAgent agentA"
           "\<lparr>Spec_RunID = ''run-Q'', Spec_Phase = ''plan''\<rparr>" st0 deps0]
      registered_agents(1) no_row
    by simp
  from c1 c2 c3 c4 c5 c6 c7 c8 c9 show ?thesis by (intro conjI) simp_all
qed

section \<open>Finishing a job\<close>

lemma finishJob_not_job:
  "\<forall>j. SubjectFromContext c \<noteq> Inr (JobSubject j) \<Longrightarrow>
   finishJob D c spec opts s = (Some ErrAccessNotPermitted, s)"
  by (auto simp: finishJob_def split: sum.splits subject.splits)

lemma finishJob_phase_calls:
  "calls (snd (finishJob_phase D spec opts s)) =
     (if Finish_Status opts = JobFinished \<or> Finish_Status opts = JobErrored
      then calls s @ [FinishPhaseCall (Spec_RunID spec) (Spec_Phase spec) (Finish_Status opts = JobErrored)]
      else if Finish_Status opts = JobCanceled then calls s @ [CancelCall (Spec_RunID spec)]
      else calls s)"
  by (simp add: finishJob_phase_def)

lemma finishJob_phase_rows:
  "jobs (snd (finishJob_phase D spec opts s)) = jobs s \<and>
   agents (snd (finishJob_phase D spec opts s)) = agents s \<and>
   pools (snd (finishJob_phase D spec opts s)) = pools s"
  by (simp add: finishJob_phase_def)

lemma finishJob_as_job:
  assumes "SubjectFromContext c = Inr (JobSubject j)"
    and "find (\<lambda>j. Job_Spec j = spec) (jobs s) = Some job"
  shows "finishJob D c spec opts s =
     (case fst (finishJob_phase D spec opts s) of
        Some err \<Rightarrow> (Some err, snd (finishJob_phase D spec opts s))
      | None \<Rightarrow>
          (case Job_finishJob job (Finish_Status opts) of
             Inl err \<Rightarrow> (Some err, snd (finishJob_phase D spec opts s))
           | Inr job' \<Rightarrow>
               (None, (snd (finishJob_phase D spec opts s))
                  \<lparr>jobs := map (\<lambda>j. if Job_Spec j = spec then job' else j) (jobs s)\<rparr>)))"
  using assms finishJob_phase_rows [of D spec opts s]
  by (cases "finishJob_phase D spec opts s")
     (auto simp: finishJob_def updateJob_found finishJob_mutator_def split: option.splits sum.splits)

lemma finishJob_calls_once:
  assumes "SubjectFromContext c = Inr (JobSubject j)"
    and "find (\<lambda>j. Job_Spec j = spec) (jobs s) = Some job"
  shows "calls (snd (finishJob D c spec opts s)) = calls (snd (finishJob_phase D spec opts s))"
  by (simp add: finishJob_as_job [OF assms] split: option.splits sum.splits)

lemma finishJob_phase_error:
  assumes "SubjectFromContext c = Inr (JobSubject j)"
    and "find (\<lambda>j. Job_Spec j = spec) (jobs s) = Some job"
    and "fst (finishJob_phase D spec opts s) = Some err"
  shows "fst (finishJob D c spec opts s) = Some err \<and> jobs (snd (finishJob D c spec opts s)) = jobs s"
  using assms(3) finishJob_phase_rows [of D spec opts s]
  by (simp add: finishJob_as_job [OF assms(1,2)])

lemma finishJob_finalized:
  assumes "SubjectFromContext c = Inr (JobSubject j)"
    and "find (\<lambda>j. Job_Spec j = spec) (jobs s) = Some job"
    and "fst (finishJob D c spec opts s) = None"
  shows "fst (finishJob_phase D spec opts s) = None \<and> Job_Status job = JobRunning \<and>
         jobs (snd (finishJob D c spec opts s)) =
           map (\<lambda>j. if Job_Spec j = spec then job\<lparr>Job_Status := Finish_Status opts\<rparr> else j) (jobs s)"
  using assms(3)
  by (auto simp: finishJob_as_job [OF assms(1,2)] Job_finishJob_def split: option.splits sum.splits if_splits)

lemma finishJob_FinishPhase:
  assumes "SubjectFromContext c = Inr (JobSubject j)"
    and "find (\<lambda>j. Job_Spec j = spec) (jobs s) = Some job"
    and "Finish_Status opts = JobFinished \<or> Finish_Status opts = JobErrored"
  shows "finishJob D c spec opts s =
     (case FinishPhase D (Spec_RunID spec) (Spec_Phase spec) (Finish_Status opts = JobErrored) of
        Some err \<Rightarrow>
          (Some err,
           s\<lparr>calls := calls s @ [FinishPhaseCall (Spec_RunID spec) (Spec_Phase spec)
                                  (Finish_Status opts = JobErrored)]\<rparr>)
      | None \<Rightarrow>
          if Job_Status job = JobRunning
          then (None,
                s\<lparr>calls := calls s @ [FinishPhaseCall (Spec_RunID spec) (Spec_Phase spec)
                                       (Finish_Status opts = JobErrored)],
                  jobs := map (\<lambda>j. if Job_Spec j = spec
                                    then job\<lparr>Job_Status := Finish_Status opts\<rparr> else j) (jobs s)\<rparr>)
          else (Some ErrInvalidStateTransition,
                s\<lparr>calls := calls s @ [FinishPhaseCall (Spec_RunID spec) (Spec_Phase spec)
                                       (Finish_Status opts = JobErrored)]\<rparr>))"
  using assms(3)
  by (auto simp: finishJob_as_job [OF assms(1,2)] finishJob_phase_def Job_finishJob_def
      split: option.splits)

lemma finishJob_Cancel:
  assumes "SubjectFromContext c = Inr (JobSubject j)"
    and "find (\<lambda>j. Job_Spec j = spec) (jobs s) = Some job"
    and "Finish_Status opts = JobCanceled"
  shows "finishJob D c spec opts s =
     (case Cancel D (Spec_RunID spec) of
        Some err \<Rightarrow> (Some err, s\<lparr>calls := calls s @ [CancelCall (Spec_RunID spec)]\<rparr>)
      | None \<Rightarrow>
          if Job_Status job = JobRunning
          then (None,
                s\<lparr>calls := calls s @ [CancelCall (Spec_RunID spec)],
                  jobs := map (\<lambda>j. if Job_Spec j = spec
                                    then job\<lparr>Job_Status := JobCanceled\<rparr> else j) (jobs s)\<rparr>)
          else (Some ErrInvalidStateTransition,
                s\<lparr>calls := calls s @ [CancelCall (Spec_RunID spec)]\<rparr>))"
  using assms(3)
  by (auto simp: finishJob_as_job [OF assms(1,2)] finishJob_phase_def Job_finishJob_def
      split: option.splits)

lemma finishJob_other_status:
  assumes "SubjectFromContext c = Inr (JobSubject j)"
    and "find (\<lambda>j. Job_Spec j = spec) (jobs s) = Some job"
    and "Finish_Status opts \<noteq> JobFinished" "Finish_Status opts \<noteq> JobErrored"
      "Finish_Status opts \<noteq> JobCanceled"
  shows "finishJob D c spec opts s = (Some ErrInvalidStateTransition, s)"
  using assms(3-5)
  by (simp add: finishJob_as_job [OF assms(1,2)] finishJob_phase_def Job_finishJob_def)

text \<open>
  Claim C2. \<open>finishJob\<close> returns \<open>ErrAccessNotPermitted\<close> unless the caller's subject is a
  job. For a job subject and an existing job row: with status \<open>JobFinished\<close> or
  \<open>JobErrored\<close> the one call made on the run service is \<open>FinishPhase\<close> for the job's
  run and phase, with \<open>Errored\<close> true iff the status is \<open>JobErrored\<close>; with status
  \<open>JobCanceled\<close> the one call made is \<open>Cancel\<close> for the run. The call comes before the
  job is finalized: when \<open>FinishPhase\<close> or \<open>Cancel\<close> fails, its error is returned and
  the job rows are as they were; when it succeeds, a running job is persisted with
  the requested status and \<open>finishJob\<close> returns nil, and a job that is not running is
  refused by \<open>Job.finishJob\<close>, after the call, with the rows as they were. With any
  other status no call is made and nothing is persisted.
\<close>

theorem finishJob_contract:
  "((\<forall>j. SubjectFromContext c \<noteq> Inr (JobSubject j)) \<longrightarrow>
      finishJob D c spec opts s = (Some ErrAccessNotPermitted, s))
   \<and> (SubjectFromContext c = Inr (JobSubject j) \<and>
        find (\<lambda>j. Job_Spec j = spec) (jobs s) = Some job \<longrightarrow>
        (Finish_Status opts = JobFinished \<or> Finish_Status opts = JobErrored \<longrightarrow>
           calls (snd (finishJob D c spec opts s)) =
             calls s @ [FinishPhaseCall (Spec_RunID spec) (Spec_Phase spec)
                          (Finish_Status opts = JobErrored)])
        \<and> (Finish_Status opts = JobCanceled \<longrightarrow>
             calls (snd (finishJob D c spec opts s)) = calls s @ [CancelCall (Spec_RunID spec)])
        \<and> (fst (finishJob_phase D spec opts s) = Some err \<longrightarrow>
             fst (finishJob D c spec opts s) = Some err \<and>
             jobs (snd (finishJob D c spec opts s)) = jobs s)
        \<and> (fst (finishJob D c spec opts s) = None \<longrightarrow>
             fst (finishJob_phase D spec opts s) = None \<and>
             Job_Status job = JobRunning \<and>
             jobs (snd (finishJob D c spec opts s)) =
               map (\<lambda>j. if Job_Spec j = spec then job\<lparr>Job_Status := Finish_Status opts\<rparr> else j)
                 (jobs s)))
   \<and> (SubjectFromContext c = Inr (JobSubject j) \<and>
        find (\<lambda>j. Job_Spec j = spec) (jobs s) = Some job \<and>
        (Finish_Status opts = JobFinished \<or> Finish_Status opts = JobErrored) \<and>
        FinishPhase D (Spec_RunID spec) (Spec_Phase spec) (Finish_Status opts = JobErrored) =
          Some perr \<longrightarrow>
      finishJob D c spec opts s =
        (Some perr,
         s\<lparr>calls := calls s @ [FinishPhaseCall (Spec_RunID spec) (Spec_Phase spec)
                                (Finish_Status opts = JobErrored)]\<rparr>))
   \<and> (SubjectFromContext c = Inr (JobSubject j) \<and>
        find (\<lambda>j. Job_Spec j = spec) (jobs s) = Some job \<and>
        Finish_Status opts = JobCanceled \<and>
        Cancel D (Spec_RunID spec) = Some cerr \<longrightarrow>
      finishJob D c spec opts s =
        (Some cerr, s\<lparr>calls := calls s @ [CancelCall (Spec_RunID spec)]\<rparr>))
   \<and> (SubjectFromContext c = Inr (JobSubject j) \<and>
        find (\<lambda>j. Job_Spec j = spec) (jobs s) = Some job \<and>
        (Finish_Status opts = JobFinished \<or> Finish_Status opts = JobErrored) \<and>
        FinishPhase D (Spec_RunID spec) (Spec_Phase spec) (Finish_Status opts = JobErrored) = None \<longrightarrow>
      finishJob D c spec opts s =
        (if Job_Status job = JobRunning
         then (None,
               s\<lparr>calls := calls s @ [FinishPhaseCall (Spec_RunID spec) (Spec_Phase spec)
                                      (Finish_Status opts = JobErrored)],
                 jobs := map (\<lambda>j. if Job_Spec j = spec
                                   then job\<lparr>Job_Status := Finish_Status opts\<rparr> else j) (jobs s)\<rparr>)
         else (Some ErrInvalidStateTransition,
               s\<lparr>calls := calls s @ [FinishPhaseCall (Spec_RunID spec) (Spec_Phase spec)
                                      (Finish_Status opts = JobErrored)]\<rparr>)))
   \<and> (SubjectFromContext c = Inr (JobSubject j) \<and>
        find (\<lambda>j. Job_Spec j = spec) (jobs s) = Some job \<and>
        Finish_Status opts = JobCanceled \<and>
        Cancel D (Spec_RunID spec) = None \<longrightarrow>
      finishJob D c spec opts s =
        (if Job_Status job = JobRunning
         then (None,
               s\<lparr>calls := calls s @ [CancelCall (Spec_RunID spec)],
                 jobs := map (\<lambda>j. if Job_Spec j = spec
                                   then job\<lparr>Job_Status := JobCanceled\<rparr> else j) (jobs s)\<rparr>)
         else (Some ErrInvalidStateTransition,
               s\<lparr>calls := calls s @ [CancelCall (Spec_RunID spec)]\<rparr>)))
   \<and> (SubjectFromContext c = Inr (JobSubject j) \<and>
        find (\<lambda>j. Job_Spec j = spec) (jobs s) = Some job \<and>
        Finish_Status opts \<noteq> JobFinished \<and> Finish_Status opts \<noteq> JobErrored \<and>
        Finish_Status opts \<noteq> JobCanceled \<longrightarrow>
      finishJob D c spec opts s = (Some ErrInvalidStateTransition, s))"
proof -
  have denied: "(\<forall>j. SubjectFromContext c \<noteq> Inr (JobSubject j)) \<longrightarrow>
      finishJob D c spec opts s = (Some ErrAccessNotPermitted, s)"
    using finishJob_not_job [of c D spec opts s] by blast
  have calls_of: "SubjectFromContext c = Inr (JobSubject j) \<and>
        find (\<lambda>j. Job_Spec j = spec) (jobs s) = Some job \<longrightarrow>
      calls (snd (finishJob D c spec opts s)) =
        (if Finish_Status opts = JobFinished \<or> Finish_Status opts = JobErrored
         then calls s @ [FinishPhaseCall (Spec_RunID spec) (Spec_Phase spec) (Finish_Status opts = JobErrored)]
         else if Finish_Status opts = JobCanceled then calls s @ [CancelCall (Spec_RunID spec)]
         else calls s)"
    using finishJob_calls_once [of c j spec s job D opts] finishJob_phase_calls [of D spec opts s]
    by simp
  have old: "SubjectFromContext c = Inr (JobSubject j) \<and>
        find (\<lambda>j. Job_Spec j = spec) (jobs s) = Some job \<longrightarrow>
        (Finish_Status opts = JobFinished \<or> Finish_Status opts = JobErrored \<longrightarrow>
           calls (snd (finishJob D c spec opts s)) =
             calls s @ [FinishPhaseCall (Spec_RunID spec) (Spec_Phase spec)
                          (Finish_Status opts = JobErrored)])
        \<and> (Finish_Status opts = JobCanceled \<longrightarrow>
             calls (snd (finishJob D c spec opts s)) = calls s @ [CancelCall (Spec_RunID spec)])
        \<and> (fst (finishJob_phase D spec opts s) = Some err \<longrightarrow>
             fst (finishJob D c spec opts s) = Some err \<and>
             jobs (snd (finishJob D c spec opts s)) = jobs s)
        \<and> (fst (finishJob D c spec opts s) = None \<longrightarrow>
             fst (finishJob_phase D spec opts s) = None \<and>
             Job_Status job = JobRunning \<and>
             jobs (snd (finishJob D c spec opts s)) =
               map (\<lambda>j. if Job_Spec j = spec then job\<lparr>Job_Status := Finish_Status opts\<rparr> else j)
                 (jobs s))"
    using calls_of
      finishJob_phase_error [of c j spec s job D opts err]
      finishJob_finalized [of c j spec s job D opts]
    by auto
  have a: "SubjectFromContext c = Inr (JobSubject j) \<and>
        find (\<lambda>j. Job_Spec j = spec) (jobs s) = Some job \<and>
        (Finish_Status opts = JobFinished \<or> Finish_Status opts = JobErrored) \<and>
        FinishPhase D (Spec_RunID spec) (Spec_Phase spec) (Finish_Status opts = JobErrored) =
          Some perr \<longrightarrow>
      finishJob D c spec opts s =
        (Some perr,
         s\<lparr>calls := calls s @ [FinishPhaseCall (Spec_RunID spec) (Spec_Phase spec)
                                (Finish_Status opts = JobErrored)]\<rparr>)"
    using finishJob_FinishPhase [of c j spec s job opts D] by simp
  have b: "SubjectFromContext c = Inr (JobSubject j) \<and>
        find (\<lambda>j. Job_Spec j = spec) (jobs s) = Some job \<and>
        Finish_Status opts = JobCanceled \<and>
        Cancel D (Spec_RunID spec) = Some cerr \<longrightarrow>
      finishJob D c spec opts s =
        (Some cerr, s\<lparr>calls := calls s @ [CancelCall (Spec_RunID spec)]\<rparr>)"
    using finishJob_Cancel [of c j spec s job opts D] by simp
  have c': "SubjectFromContext c = Inr (JobSubject j) \<and>
        find (\<lambda>j. Job_Spec j = spec) (jobs s) = Some job \<and>
        (Finish_Status opts = JobFinished \<or> Finish_Status opts = JobErrored) \<and>
        FinishPhase D (Spec_RunID spec) (Spec_Phase spec) (Finish_Status opts = JobErrored) = None \<longrightarrow>
      finishJob D c spec opts s =
        (if Job_Status job = JobRunning
         then (None,
               s\<lparr>calls := calls s @ [FinishPhaseCall (Spec_RunID spec) (Spec_Phase spec)
                                      (Finish_Status opts = JobErrored)],
                 jobs := map (\<lambda>j. if Job_Spec j = spec
                                   then job\<lparr>Job_Status := Finish_Status opts\<rparr> else j) (jobs s)\<rparr>)
         else (Some ErrInvalidStateTransition,
               s\<lparr>calls := calls s @ [FinishPhaseCall (Spec_RunID spec) (Spec_Phase spec)
                                      (Finish_Status opts = JobErrored)]\<rparr>))"
    using finishJob_FinishPhase [of c j spec s job opts D] by simp
  have d: "SubjectFromContext c = Inr (JobSubject j) \<and>
        find (\<lambda>j. Job_Spec j = spec) (jobs s) = Some job \<and>
        Finish_Status opts = JobCanceled \<and>
        Cancel D (Spec_RunID spec) = None \<longrightarrow>
      finishJob D c spec opts s =
        (if Job_Status job = JobRunning
         then (None,
               s\<lparr>calls := calls s @ [CancelCall (Spec_RunID spec)],
                 jobs := map (\<lambda>j. if Job_Spec j = spec
                                   then job\<lparr>Job_Status := JobCanceled\<rparr> else j) (jobs s)\<rparr>)
         else (Some ErrInvalidStateTransition,
               s\<lparr>calls := calls s @ [CancelCall (Spec_RunID spec)]\<rparr>))"
    using finishJob_Cancel [of c j spec s job opts D] by simp
  have e: "SubjectFromContext c = Inr (JobSubject j) \<and>
        find (\<lambda>j. Job_Spec j = spec) (jobs s) = Some job \<and>
        Finish_Status opts \<noteq> JobFinished \<and> Finish_Status opts \<noteq> JobErrored \<and>
        Finish_Status opts \<noteq> JobCanceled \<longrightarrow>
      finishJob D c spec opts s = (Some ErrInvalidStateTransition, s)"
    using finishJob_other_status [of c j spec s job opts D] by simp
  from denied old a b c' d e show ?thesis by (intro conjI)
qed

theorem finishJob_contract_witness:
  "finishJob deps0 (Some (ServerAgent agentA)) (Job_Spec jobJ1)
      \<lparr>Finish_Status = JobFinished, Finish_Error = []\<rparr> st1 = (Some ErrAccessNotPermitted, st1)
   \<and> calls (snd (finishJob deps0 (Some (JobSubject jobJ1)) (Job_Spec jobJ1)
        \<lparr>Finish_Status = JobFinished, Finish_Error = []\<rparr> st1)) =
       [StartPhaseCall ''run-R'' ''plan'', FinishPhaseCall ''run-R'' ''plan'' False]
   \<and> calls (snd (finishJob deps0 (Some (JobSubject jobJ1)) (Job_Spec jobJ1)
        \<lparr>Finish_Status = JobErrored, Finish_Error = ''exit status 1''\<rparr> st1)) =
       [StartPhaseCall ''run-R'' ''plan'', FinishPhaseCall ''run-R'' ''plan'' True]
   \<and> calls (snd (finishJob deps0 (Some (JobSubject jobJ1)) (Job_Spec jobJ1)
        \<lparr>Finish_Status = JobCanceled, Finish_Error = []\<rparr> st1)) =
       [StartPhaseCall ''run-R'' ''plan'', CancelCall ''run-R'']
   \<and> fst (finishJob deps_failing (Some (JobSubject jobJ1)) (Job_Spec jobJ1)
        \<lparr>Finish_Status = JobFinished, Finish_Error = []\<rparr> st1) =
       Some (ErrOther ''run service unavailable'')
   \<and> jobs (snd (finishJob deps_failing (Some (JobSubject jobJ1)) (Job_Spec jobJ1)
        \<lparr>Finish_Status = JobFinished, Finish_Error = []\<rparr> st1)) = jobs st1
   \<and> fst (finishJob deps0 (Some (JobSubject jobJ1)) (Job_Spec jobJ1)
        \<lparr>Finish_Status = JobFinished, Finish_Error = []\<rparr> st1) = None
   \<and> jobs (snd (finishJob deps0 (Some (JobSubject jobJ1)) (Job_Spec jobJ1)
        \<lparr>Finish_Status = JobFinished, Finish_Error = []\<rparr> st1)) =
       [jobJ1\<lparr>Job_Status := JobFinished\<rparr>]
   \<and> finishJob deps0 (Some (JobSubject jobJ1)) (Job_Spec jobJ1)
        \<lparr>Finish_Status = JobCanceled, Finish_Error = []\<rparr> st1 =
       (None, st1\<lparr>calls := calls st1 @ [CancelCall ''run-R''],
                  jobs := [jobJ1\<lparr>Job_Status := JobCanceled\<rparr>]\<rparr>)
   \<and> finishJob deps0 (Some (JobSubject jobJ1)) (Job_Spec jobJ1)
        \<lparr>Finish_Status = JobErrored, Finish_Error = ''exit status 1''\<rparr> st1 =
       (None, st1\<lparr>calls := calls st1 @ [FinishPhaseCall ''run-R'' ''plan'' True],
                  jobs := [jobJ1\<lparr>Job_Status := JobErrored\<rparr>]\<rparr>)
   \<and> finishJob deps_failing (Some (JobSubject jobJ1)) (Job_Spec jobJ1)
        \<lparr>Finish_Status = JobFinished, Finish_Error = []\<rparr> st1 =
       (Some (ErrOther ''run service unavailable''),
        st1\<lparr>calls := calls st1 @ [FinishPhaseCall ''run-R'' ''plan'' False]\<rparr>)
   \<and> finishJob (deps0\<lparr>Cancel := (\<lambda>runID. Some (ErrOther ''run not cancelable''))\<rparr>)
        (Some (JobSubject jobJ1)) (Job_Spec jobJ1)
        \<lparr>Finish_Status = JobCanceled, Finish_Error = []\<rparr> st1 =
       (Some (ErrOther ''run not cancelable''), st1\<lparr>calls := calls st1 @ [CancelCall ''run-R'']\<rparr>)
   \<and> finishJob deps0 (Some (JobSubject jobJ1)) (Job_Spec jobJ1)
        \<lparr>Finish_Status = JobRunning, Finish_Error = []\<rparr> st1 =
       (Some ErrInvalidStateTransition, st1)"
proof -
  have agent: "\<forall>j. SubjectFromContext (Some (ServerAgent agentA)) \<noteq> Inr (JobSubject j)"
    and job: "SubjectFromContext (Some (JobSubject jobJ1)) = Inr (JobSubject jobJ1)"
    by (simp_all add: SubjectFromContext_def)
  have calls1: "calls st1 = [StartPhaseCall ''run-R'' ''plan'']"
    and jobs1: "jobs st1 = [jobJ1\<lparr>Job_Status := JobRunning\<rparr>]"
    by (simp_all add: st1_def)
  have c1: "finishJob deps0 (Some (ServerAgent agentA)) (Job_Spec jobJ1)
      \<lparr>Finish_Status = JobFinished, Finish_Error = []\<rparr> st1 = (Some ErrAccessNotPermitted, st1)"
    using finishJob_contract [THEN conjunct1, of "Some (ServerAgent agentA)" deps0 "Job_Spec jobJ1"
        "\<lparr>Finish_Status = JobFinished, Finish_Error = []\<rparr>" st1] agent
    by simp
  note as_job = finishJob_contract [THEN conjunct2, THEN conjunct1, rule_format, OF conjI,
      OF job st1_row]
  have c2: "calls (snd (finishJob deps0 (Some (JobSubject jobJ1)) (Job_Spec jobJ1)
        \<lparr>Finish_Status = JobFinished, Finish_Error = []\<rparr> st1)) =
       [StartPhaseCall ''run-R'' ''plan'', FinishPhaseCall ''run-R'' ''plan'' False]"
    using as_job [THEN conjunct1, of "\<lparr>Finish_Status = JobFinished, Finish_Error = []\<rparr>" deps0]
    by (simp add: calls1 jobJ1_fields(1))
  have c3: "calls (snd (finishJob deps0 (Some (JobSubject jobJ1)) (Job_Spec jobJ1)
        \<lparr>Finish_Status = JobErrored, Finish_Error = ''exit status 1''\<rparr> st1)) =
       [StartPhaseCall ''run-R'' ''plan'', FinishPhaseCall ''run-R'' ''plan'' True]"
    using as_job [THEN conjunct1,
        of "\<lparr>Finish_Status = JobErrored, Finish_Error = ''exit status 1''\<rparr>" deps0]
    by (simp add: calls1 jobJ1_fields(1))
  have c4: "calls (snd (finishJob deps0 (Some (JobSubject jobJ1)) (Job_Spec jobJ1)
        \<lparr>Finish_Status = JobCanceled, Finish_Error = []\<rparr> st1)) =
       [StartPhaseCall ''run-R'' ''plan'', CancelCall ''run-R'']"
    using as_job [THEN conjunct2, THEN conjunct1,
        of "\<lparr>Finish_Status = JobCanceled, Finish_Error = []\<rparr>" deps0]
    by (simp add: calls1 jobJ1_fields(1))
  have failing: "fst (finishJob_phase deps_failing (Job_Spec jobJ1)
        \<lparr>Finish_Status = JobFinished, Finish_Error = []\<rparr> st1) =
       Some (ErrOther ''run service unavailable'')"
    by (simp add: finishJob_phase_def deps_failing_def)
  have c5: "fst (finishJob deps_failing (Some (JobSubject jobJ1)) (Job_Spec jobJ1)
        \<lparr>Finish_Status = JobFinished, Finish_Error = []\<rparr> st1) =
       Some (ErrOther ''run service unavailable'')
     \<and> jobs (snd (finishJob deps_failing (Some (JobSubject jobJ1)) (Job_Spec jobJ1)
        \<lparr>Finish_Status = JobFinished, Finish_Error = []\<rparr> st1)) = jobs st1"
    using as_job [THEN conjunct2, THEN conjunct2, THEN conjunct1,
        of deps_failing "\<lparr>Finish_Status = JobFinished, Finish_Error = []\<rparr>"
           "ErrOther ''run service unavailable''"] failing
    by simp
  have c6: "fst (finishJob deps0 (Some (JobSubject jobJ1)) (Job_Spec jobJ1)
        \<lparr>Finish_Status = JobFinished, Finish_Error = []\<rparr> st1) = None"
    by (simp add: finishJob_as_job [OF job st1_row] finishJob_phase_def deps0_def
        Job_finishJob_def)
  have c7: "jobs (snd (finishJob deps0 (Some (JobSubject jobJ1)) (Job_Spec jobJ1)
        \<lparr>Finish_Status = JobFinished, Finish_Error = []\<rparr> st1)) =
       [jobJ1\<lparr>Job_Status := JobFinished\<rparr>]"
    using as_job [THEN conjunct2, THEN conjunct2, THEN conjunct2,
        of deps0 "\<lparr>Finish_Status = JobFinished, Finish_Error = []\<rparr>"] c6
    by (simp add: jobs1)
  have running: "Job_Status (jobJ1\<lparr>Job_Status := JobRunning\<rparr>) = JobRunning"
    by simp
  have c8: "finishJob deps0 (Some (JobSubject jobJ1)) (Job_Spec jobJ1)
        \<lparr>Finish_Status = JobCanceled, Finish_Error = []\<rparr> st1 =
       (None, st1\<lparr>calls := calls st1 @ [CancelCall ''run-R''],
                  jobs := [jobJ1\<lparr>Job_Status := JobCanceled\<rparr>]\<rparr>)"
    using finishJob_contract [THEN conjunct2, THEN conjunct2, THEN conjunct2, THEN conjunct2,
        THEN conjunct2, THEN conjunct1,
        of "Some (JobSubject jobJ1)" jobJ1 "Job_Spec jobJ1" st1 "jobJ1\<lparr>Job_Status := JobRunning\<rparr>"
           "\<lparr>Finish_Status = JobCanceled, Finish_Error = []\<rparr>" deps0] job st1_row
    by (simp add: deps0_def jobJ1_fields(1) jobs1)
  have c9: "finishJob deps0 (Some (JobSubject jobJ1)) (Job_Spec jobJ1)
        \<lparr>Finish_Status = JobErrored, Finish_Error = ''exit status 1''\<rparr> st1 =
       (None, st1\<lparr>calls := calls st1 @ [FinishPhaseCall ''run-R'' ''plan'' True],
                  jobs := [jobJ1\<lparr>Job_Status := JobErrored\<rparr>]\<rparr>)"
    using finishJob_contract [THEN conjunct2, THEN conjunct2, THEN conjunct2, THEN conjunct2,
        THEN conjunct1,
        of "Some (JobSubject jobJ1)" jobJ1 "Job_Spec jobJ1" st1 "jobJ1\<lparr>Job_Status := JobRunning\<rparr>"
           "\<lparr>Finish_Status = JobErrored, Finish_Error = ''exit status 1''\<rparr>" deps0] job st1_row
    by (simp add: deps0_def jobJ1_fields(1) jobs1)
  have c10: "finishJob deps_failing (Some (JobSubject jobJ1)) (Job_Spec jobJ1)
        \<lparr>Finish_Status = JobFinished, Finish_Error = []\<rparr> st1 =
       (Some (ErrOther ''run service unavailable''),
        st1\<lparr>calls := calls st1 @ [FinishPhaseCall ''run-R'' ''plan'' False]\<rparr>)"
    using finishJob_contract [THEN conjunct2, THEN conjunct2, THEN conjunct1,
        of "Some (JobSubject jobJ1)" jobJ1 "Job_Spec jobJ1" st1 "jobJ1\<lparr>Job_Status := JobRunning\<rparr>"
           "\<lparr>Finish_Status = JobFinished, Finish_Error = []\<rparr>" deps_failing
           "ErrOther ''run service unavailable''"] job st1_row
    by (simp add: deps_failing_def jobJ1_fields(1))
  have c11: "finishJob (deps0\<lparr>Cancel := (\<lambda>runID. Some (ErrOther ''run not cancelable''))\<rparr>)
        (Some (JobSubject jobJ1)) (Job_Spec jobJ1)
        \<lparr>Finish_Status = JobCanceled, Finish_Error = []\<rparr> st1 =
       (Some (ErrOther ''run not cancelable''), st1\<lparr>calls := calls st1 @ [CancelCall ''run-R'']\<rparr>)"
    using finishJob_contract [THEN conjunct2, THEN conjunct2, THEN conjunct2, THEN conjunct1,
        of "Some (JobSubject jobJ1)" jobJ1 "Job_Spec jobJ1" st1 "jobJ1\<lparr>Job_Status := JobRunning\<rparr>"
           "\<lparr>Finish_Status = JobCanceled, Finish_Error = []\<rparr>"
           "deps0\<lparr>Cancel := (\<lambda>runID. Some (ErrOther ''run not cancelable''))\<rparr>"
           "ErrOther ''run not cancelable''"] job st1_row
    by (simp add: jobJ1_fields(1))
  have c12: "finishJob deps0 (Some (JobSubject jobJ1)) (Job_Spec jobJ1)
        \<lparr>Finish_Status = JobRunning, Finish_Error = []\<rparr> st1 =
       (Some ErrInvalidStateTransition, st1)"
    using finishJob_contract [THEN conjunct2, THEN conjunct2, THEN conjunct2, THEN conjunct2,
        THEN conjunct2, THEN conjunct2,
        of "Some (JobSubject jobJ1)" jobJ1 "Job_Spec jobJ1" st1 "jobJ1\<lparr>Job_Status := JobRunning\<rparr>"
           "\<lparr>Finish_Status = JobRunning, Finish_Error = []\<rparr>" deps0] job st1_row
    by simp
  from c1 c2 c3 c4 c5 c6 c7 c8 c9 c10 c11 c12 show ?thesis by (intro conjI) simp_all
qed

section \<open>Cancelling a job\<close>

lemma cancelJob_no_row:
  "find (\<lambda>j. Job_Spec j = \<lparr>Spec_RunID = Run_ID run, Spec_Phase = Run_Phase run\<rparr>) (jobs s) = None \<Longrightarrow>
   cancelJob D run s = (None, s)"
  by (simp add: cancelJob_def updateJob_not_found)

lemma cancelJob_mutator_error:
  "find (\<lambda>j. Job_Spec j = \<lparr>Spec_RunID = Run_ID run, Spec_Phase = Run_Phase run\<rparr>) (jobs s) = Some job \<Longrightarrow>
   cancel D job run = Inl err \<Longrightarrow>
   cancelJob D run s = (if errors_Is err ErrResourceNotFound then None else Some err, s)"
  by (simp add: cancelJob_def updateJob_found cancelJob_mutator_def)

lemma cancelJob_update_error:
  "updateJob \<lparr>Spec_RunID = Run_ID run, Spec_Phase = Run_Phase run\<rparr>
     (cancelJob_mutator D run) s = (Inl err, s') \<Longrightarrow>
   cancelJob D run s = (if errors_Is err ErrResourceNotFound then None else Some err, s')"
  by (simp add: cancelJob_def)

lemma cancelJob_update_ok:
  "updateJob \<lparr>Spec_RunID = Run_ID run, Spec_Phase = Run_Phase run\<rparr>
     (cancelJob_mutator D run) s = (Inr r, s') \<Longrightarrow>
   cancelJob D run s = (None, s')"
  by (simp add: cancelJob_def)

text \<open>
  Claim C10. When no job row exists for the run's ID and phase, the store update
  fails with \<open>ErrResourceNotFound\<close>, and \<open>cancelJob\<close> returns nil and leaves the state as
  it was. Any other error of the update, from the store or from \<open>Job.cancel\<close>, is
  returned to the caller as it is, with the state the update left. ``Other'' is read
  as the source tests it, with \<open>errors.Is\<close>: an error that is \<open>ErrResourceNotFound\<close> or
  wraps it gives nil, every error that is not gives itself. An update without error
  gives nil.
\<close>

theorem cancelJob_contract:
  "(find (\<lambda>j. Job_Spec j = \<lparr>Spec_RunID = Run_ID run, Spec_Phase = Run_Phase run\<rparr>) (jobs s) = None \<longrightarrow>
      updateJob \<lparr>Spec_RunID = Run_ID run, Spec_Phase = Run_Phase run\<rparr> (cancelJob_mutator D run) s =
        (Inl ErrResourceNotFound, s) \<and>
      cancelJob D run s = (None, s))
   \<and> (find (\<lambda>j. Job_Spec j = \<lparr>Spec_RunID = Run_ID run, Spec_Phase = Run_Phase run\<rparr>) (jobs s) = Some job \<and>
        cancel D job run = Inl err \<and> \<not> errors_Is err ErrResourceNotFound \<longrightarrow>
      cancelJob D run s = (Some err, s))
   \<and> (updateJob \<lparr>Spec_RunID = Run_ID run, Spec_Phase = Run_Phase run\<rparr>
         (cancelJob_mutator D run) s = (Inl err', s') \<and>
        \<not> errors_Is err' ErrResourceNotFound \<longrightarrow>
      cancelJob D run s = (Some err', s'))
   \<and> (updateJob \<lparr>Spec_RunID = Run_ID run, Spec_Phase = Run_Phase run\<rparr>
         (cancelJob_mutator D run) s = (Inl err', s') \<and>
        errors_Is err' ErrResourceNotFound \<longrightarrow>
      cancelJob D run s = (None, s'))
   \<and> (updateJob \<lparr>Spec_RunID = Run_ID run, Spec_Phase = Run_Phase run\<rparr>
         (cancelJob_mutator D run) s = (Inr r, s') \<longrightarrow>
      cancelJob D run s = (None, s'))
   \<and> (errors_Is err'' ErrResourceNotFound \<longleftrightarrow>
        err'' = ErrResourceNotFound \<or>
        (\<exists>msg inner. err'' = ErrWrap msg inner \<and> errors_Is inner ErrResourceNotFound))"
proof -
  have is_def: "errors_Is err'' ErrResourceNotFound \<longleftrightarrow>
        err'' = ErrResourceNotFound \<or>
        (\<exists>msg inner. err'' = ErrWrap msg inner \<and> errors_Is inner ErrResourceNotFound)"
    by (cases err'') auto
  show ?thesis
    using cancelJob_no_row [of run s D] cancelJob_mutator_error [of run s job D err]
      cancelJob_update_error [of run D s err' s'] cancelJob_update_ok [of run D s r s']
      updateJob_not_found [of "\<lparr>Spec_RunID = Run_ID run, Spec_Phase = Run_Phase run\<rparr>" s
        "cancelJob_mutator D run"]
      is_def
    by auto
qed

theorem cancelJob_contract_witness:
  "cancelJob deps0 runQ st0 = (None, st0)
   \<and> cancel deps0 jobJ1 runR = Inl ErrInvalidStateTransition
   \<and> cancelJob deps0 runR st0 = (Some ErrInvalidStateTransition, st0)
   \<and> updateJob \<lparr>Spec_RunID = Run_ID runR, Spec_Phase = Run_Phase runR\<rparr>
        (cancelJob_mutator deps0 runR) st0 = (Inl ErrInvalidStateTransition, st0)
   \<and> cancelJob (deps0\<lparr>cancel := (\<lambda>job run. Inl (ErrWrap ''canceling job'' ErrResourceNotFound))\<rparr>)
        runR st0 = (None, st0)
   \<and> cancelJob deps0 runR st1 =
       (None, st1\<lparr>jobs := [jobJ1\<lparr>Job_Status := JobRunning, Job_Signaled := Some True\<rparr>]\<rparr>)"
proof -
  let ?wrapping = "deps0\<lparr>cancel := (\<lambda>job run. Inl (ErrWrap ''canceling job'' ErrResourceNotFound))\<rparr>"
  have no_row: "find (\<lambda>j. Job_Spec j = \<lparr>Spec_RunID = Run_ID runQ, Spec_Phase = Run_Phase runQ\<rparr>)
      (jobs st0) = None"
    by (simp add: st0_def jobJ1_def runQ_def)
  have row: "find (\<lambda>j. Job_Spec j = \<lparr>Spec_RunID = Run_ID runR, Spec_Phase = Run_Phase runR\<rparr>)
      (jobs st0) = Some jobJ1"
    by (simp add: st0_def jobJ1_def runR_def)
  have row1: "find (\<lambda>j. Job_Spec j = \<lparr>Spec_RunID = Run_ID runR, Spec_Phase = Run_Phase runR\<rparr>)
      (jobs st1) = Some (jobJ1\<lparr>Job_Status := JobRunning\<rparr>)"
    by (simp add: st1_def jobJ1_def runR_def)
  have refused: "cancel deps0 jobJ1 runR = Inl ErrInvalidStateTransition"
    by (simp add: deps0_def jobJ1_def)
  have c1: "cancelJob deps0 runQ st0 = (None, st0)"
    using cancelJob_contract [THEN conjunct1, of runQ st0 deps0] no_row by simp
  have c2: "cancelJob deps0 runR st0 = (Some ErrInvalidStateTransition, st0)"
    using cancelJob_contract [THEN conjunct2, THEN conjunct1,
        of runR st0 jobJ1 deps0 ErrInvalidStateTransition] row refused
    by simp
  have upd: "updateJob \<lparr>Spec_RunID = Run_ID runR, Spec_Phase = Run_Phase runR\<rparr>
               (cancelJob_mutator deps0 runR) st0 = (Inl ErrInvalidStateTransition, st0)"
    by (simp add: updateJob_found [OF row] refused cancelJob_mutator_def)
  have c3: "cancelJob deps0 runR st0 = (Some ErrInvalidStateTransition, st0)"
    using cancelJob_contract [THEN conjunct2, THEN conjunct2, THEN conjunct1,
        of runR deps0 st0 ErrInvalidStateTransition st0] upd
    by simp
  have upd_wrapped: "updateJob \<lparr>Spec_RunID = Run_ID runR, Spec_Phase = Run_Phase runR\<rparr>
               (cancelJob_mutator ?wrapping runR) st0 =
             (Inl (ErrWrap ''canceling job'' ErrResourceNotFound), st0)"
    by (simp add: updateJob_found [OF row] cancelJob_mutator_def)
  have c4: "cancelJob ?wrapping runR st0 = (None, st0)"
    using cancelJob_contract [THEN conjunct2, THEN conjunct2, THEN conjunct2, THEN conjunct1,
        of runR ?wrapping st0 "ErrWrap ''canceling job'' ErrResourceNotFound" st0] upd_wrapped
    by simp
  have upd_ok: "updateJob \<lparr>Spec_RunID = Run_ID runR, Spec_Phase = Run_Phase runR\<rparr>
               (cancelJob_mutator deps0 runR) st1 =
             (Inr (Some True, jobJ1\<lparr>Job_Status := JobRunning, Job_Signaled := Some True\<rparr>),
              st1\<lparr>jobs := [jobJ1\<lparr>Job_Status := JobRunning, Job_Signaled := Some True\<rparr>]\<rparr>)"
  proof -
    have m: "cancelJob_mutator deps0 runR (jobJ1\<lparr>Job_Status := JobRunning\<rparr>) st1 =
        (Inr (Some True, jobJ1\<lparr>Job_Status := JobRunning, Job_Signaled := Some True\<rparr>), st1)"
      by (simp add: cancelJob_mutator_def deps0_def runR_def)
    have rows: "jobs st1 = [jobJ1\<lparr>Job_Status := JobRunning\<rparr>]"
      by (simp add: st1_def)
    have spec: "Job_Spec (jobJ1\<lparr>Job_Status := JobRunning\<rparr>) =
        \<lparr>Spec_RunID = Run_ID runR, Spec_Phase = Run_Phase runR\<rparr>"
      by (simp add: jobJ1_def runR_def)
    show ?thesis
      by (simp add: updateJob_found [OF row1] m rows spec)
  qed
  have c5: "cancelJob deps0 runR st1 =
       (None, st1\<lparr>jobs := [jobJ1\<lparr>Job_Status := JobRunning, Job_Signaled := Some True\<rparr>]\<rparr>)"
    using cancelJob_contract [THEN conjunct2, THEN conjunct2, THEN conjunct2, THEN conjunct2,
        THEN conjunct1, of runR deps0 st1
        "(Some True, jobJ1\<lparr>Job_Status := JobRunning, Job_Signaled := Some True\<rparr>)"
        "st1\<lparr>jobs := [jobJ1\<lparr>Job_Status := JobRunning, Job_Signaled := Some True\<rparr>]\<rparr>"] upd_ok
    by simp
  from c1 refused c2 upd c4 c5 c3 show ?thesis by (intro conjI)
qed

section \<open>Polling for jobs\<close>

lemma getAgentJobs_wait_sound:
  "j \<in> set (getAgentJobs_wait agentID sub) \<Longrightarrow>
   Job_AgentID j = Some agentID \<and>
   (Job_Status j = JobAllocated \<or> (Job_Status j = JobRunning \<and> Job_Signaled j \<noteq> None))"
  by (induction agentID sub rule: getAgentJobs_wait.induct)
     (auto split: if_splits JobStatus.splits)

lemma getAgentJobs_subject_None:
  "getAgentJobs_subject subject agentID = None \<longleftrightarrow>
   (\<exists>a. subject = ServerAgent a \<and> Agent_ID a = agentID) \<or>
   (\<exists>a p t. subject = PoolAgent a p t \<and> Agent_ID a = agentID)"
  by (cases subject) (auto simp: getAgentJobs_subject_def)

lemma getAgentJobs_subject_Some:
  "getAgentJobs_subject subject agentID = Some err \<Longrightarrow> err = ErrAccessNotPermitted"
  by (cases subject) (auto simp: getAgentJobs_subject_def split: if_splits)

lemma getAgentJobs_denied:
  assumes "SubjectFromContext c = Inr subject"
    and "\<forall>a. subject = ServerAgent a \<longrightarrow> Agent_ID a \<noteq> agentID"
    and "\<forall>a p t. subject = PoolAgent a p t \<longrightarrow> Agent_ID a \<noteq> agentID"
  shows "getAgentJobs c agentID sub s = Inl ErrAccessNotPermitted"
proof -
  from assms(2,3) have "getAgentJobs_subject subject agentID \<noteq> None"
    by (auto simp: getAgentJobs_subject_None)
  then obtain err where e: "getAgentJobs_subject subject agentID = Some err" by auto
  with getAgentJobs_subject_Some [OF e] assms(1) show ?thesis
    by (simp add: getAgentJobs_def)
qed

lemma getAgentJobs_result:
  assumes "getAgentJobs c agentID sub s = Inr js"
  shows "((\<exists>a. c = Some (ServerAgent a) \<and> Agent_ID a = agentID) \<or>
          (\<exists>a p t. c = Some (PoolAgent a p t) \<and> Agent_ID a = agentID)) \<and>
         (\<forall>j \<in> set js. Job_AgentID j = Some agentID \<and>
            (Job_Status j = JobAllocated \<or> (Job_Status j = JobRunning \<and> Job_Signaled j \<noteq> None)))"
proof -
  from assms obtain subject where c: "c = Some subject"
    by (cases c) (auto simp: getAgentJobs_def SubjectFromContext_def)
  from assms c have ok: "getAgentJobs_subject subject agentID = None"
    by (cases "getAgentJobs_subject subject agentID") (auto simp: getAgentJobs_def SubjectFromContext_def)
  from assms c ok have js: "js = (if length (filter (\<lambda>j. Job_AgentID j = Some agentID \<and>
                       (Job_Status j = JobAllocated \<or>
                        (Job_Status j = JobRunning \<and> Job_Signaled j \<noteq> None))) (jobs s)) > 0
       then filter (\<lambda>j. Job_AgentID j = Some agentID \<and>
                       (Job_Status j = JobAllocated \<or>
                        (Job_Status j = JobRunning \<and> Job_Signaled j \<noteq> None))) (jobs s)
       else getAgentJobs_wait agentID sub)"
    by (auto simp: getAgentJobs_def SubjectFromContext_def getAllocatedAndSignaledJobs_def split: if_splits)
  have "\<forall>j \<in> set js. Job_AgentID j = Some agentID \<and>
            (Job_Status j = JobAllocated \<or> (Job_Status j = JobRunning \<and> Job_Signaled j \<noteq> None))"
  proof (cases "length (filter (\<lambda>j. Job_AgentID j = Some agentID \<and>
                       (Job_Status j = JobAllocated \<or>
                        (Job_Status j = JobRunning \<and> Job_Signaled j \<noteq> None))) (jobs s)) > 0")
    case True
    with js show ?thesis by auto
  next
    case False
    with js have "js = getAgentJobs_wait agentID sub" by simp
    then show ?thesis using getAgentJobs_wait_sound by blast
  qed
  with c ok show ?thesis by (simp add: getAgentJobs_subject_None)
qed

lemma getAgentJobs_permitted:
  assumes "SubjectFromContext c = Inr subject"
    and "getAgentJobs_subject subject agentID = None"
  shows "getAgentJobs c agentID sub s =
     (case getAllocatedAndSignaledJobs s agentID of
        Inl err \<Rightarrow> Inl err
      | Inr js \<Rightarrow> if length js > 0 then Inr js else Inr (getAgentJobs_wait agentID sub))"
  using assms by (simp add: getAgentJobs_def)

text \<open>
  Claim C4. For a caller with a subject, \<open>getAgentJobs\<close> returns
  \<open>ErrAccessNotPermitted\<close> unless the subject is a registered server or pool agent whose
  ID equals \<open>agentID\<close>. A successful result is only given to such an agent, and every
  job in it is assigned to \<open>agentID\<close> and is either allocated, or running with a
  non-nil \<open>Signaled\<close>; this holds for the jobs of the store query and for the job the
  wait on the event stream returns.
\<close>

theorem getAgentJobs_contract:
  "(SubjectFromContext c = Inr subject \<and>
      (\<forall>a. subject = ServerAgent a \<longrightarrow> Agent_ID a \<noteq> agentID) \<and>
      (\<forall>a p t. subject = PoolAgent a p t \<longrightarrow> Agent_ID a \<noteq> agentID) \<longrightarrow>
    getAgentJobs c agentID sub s = Inl ErrAccessNotPermitted)
   \<and> (getAgentJobs c agentID sub s = Inr js \<longrightarrow>
        ((\<exists>a. c = Some (ServerAgent a) \<and> Agent_ID a = agentID) \<or>
         (\<exists>a p t. c = Some (PoolAgent a p t) \<and> Agent_ID a = agentID)) \<and>
        (\<forall>j \<in> set js. Job_AgentID j = Some agentID \<and>
           (Job_Status j = JobAllocated \<or> (Job_Status j = JobRunning \<and> Job_Signaled j \<noteq> None))))
   \<and> (\<forall>j \<in> set (getAgentJobs_wait agentID sub). Job_AgentID j = Some agentID \<and>
           (Job_Status j = JobAllocated \<or> (Job_Status j = JobRunning \<and> Job_Signaled j \<noteq> None)))"
  using getAgentJobs_denied [of c subject agentID sub s] getAgentJobs_result [of c agentID sub s js]
    getAgentJobs_wait_sound [of _ agentID sub]
  by blast

theorem getAgentJobs_contract_witness:
  "getAgentJobs (Some (User ''alice'')) ''agent-A'' [] st0 = Inl ErrAccessNotPermitted
   \<and> getAgentJobs (Some (ServerAgent agentB)) ''agent-A'' [] st0 = Inl ErrAccessNotPermitted
   \<and> getAgentJobs (Some (ServerAgent agentA)) ''agent-A'' [] st0 = Inr [jobJ1]
   \<and> Job_AgentID jobJ1 = Some ''agent-A''
   \<and> (Job_Status jobJ1 = JobAllocated \<or>
       (Job_Status jobJ1 = JobRunning \<and> Job_Signaled jobJ1 \<noteq> None))
   \<and> getAgentJobs_wait ''agent-B''
        [jobJ1, jobJ1\<lparr>Job_AgentID := Some ''agent-B'', Job_Status := JobRunning\<rparr>,
         jobJ1\<lparr>Job_AgentID := Some ''agent-B'', Job_Status := JobRunning,
               Job_Signaled := Some True\<rparr>] =
       [jobJ1\<lparr>Job_AgentID := Some ''agent-B'', Job_Status := JobRunning,
              Job_Signaled := Some True\<rparr>]
   \<and> Job_AgentID (jobJ1\<lparr>Job_AgentID := Some ''agent-B'', Job_Status := JobRunning,
                        Job_Signaled := Some True\<rparr>) = Some ''agent-B''"
proof -
  have user: "SubjectFromContext (Some (User ''alice'')) = Inr (User ''alice'')"
    and b: "SubjectFromContext (Some (ServerAgent agentB)) = Inr (ServerAgent agentB)"
    and a: "SubjectFromContext (Some (ServerAgent agentA)) = Inr (ServerAgent agentA)"
    by (simp_all add: SubjectFromContext_def)
  have c1: "getAgentJobs (Some (User ''alice'')) ''agent-A'' [] st0 = Inl ErrAccessNotPermitted"
    using getAgentJobs_contract [THEN conjunct1,
        of "Some (User ''alice'')" "User ''alice''" "''agent-A''" "[]" st0] user
    by simp
  have c2: "getAgentJobs (Some (ServerAgent agentB)) ''agent-A'' [] st0 = Inl ErrAccessNotPermitted"
    using getAgentJobs_contract [THEN conjunct1,
        of "Some (ServerAgent agentB)" "ServerAgent agentB" "''agent-A''" "[]" st0] b
    by (simp add: agentB_def)
  have c3: "getAgentJobs (Some (ServerAgent agentA)) ''agent-A'' [] st0 = Inr [jobJ1]"
  proof -
    have "getAgentJobs_subject (ServerAgent agentA) ''agent-A'' = None"
      by (simp add: getAgentJobs_subject_def agentA_def)
    from getAgentJobs_permitted [OF a this, of "[]" st0] show ?thesis
      by (simp add: getAllocatedAndSignaledJobs_def st0_def jobJ1_fields)
  qed
  have c4: "Job_AgentID jobJ1 = Some ''agent-A'' \<and>
      (Job_Status jobJ1 = JobAllocated \<or>
       (Job_Status jobJ1 = JobRunning \<and> Job_Signaled jobJ1 \<noteq> None))"
    using getAgentJobs_contract [THEN conjunct2, THEN conjunct1,
        of "Some (ServerAgent agentA)" "''agent-A''" "[]" st0 "[jobJ1]"] c3
    by simp
  have c5: "getAgentJobs_wait ''agent-B''
        [jobJ1, jobJ1\<lparr>Job_AgentID := Some ''agent-B'', Job_Status := JobRunning\<rparr>,
         jobJ1\<lparr>Job_AgentID := Some ''agent-B'', Job_Status := JobRunning,
               Job_Signaled := Some True\<rparr>] =
       [jobJ1\<lparr>Job_AgentID := Some ''agent-B'', Job_Status := JobRunning,
              Job_Signaled := Some True\<rparr>]"
    by (simp add: jobJ1_fields)
  have c6: "Job_AgentID (jobJ1\<lparr>Job_AgentID := Some ''agent-B'', Job_Status := JobRunning,
                        Job_Signaled := Some True\<rparr>) = Some ''agent-B''"
  proof -
    note getAgentJobs_contract [THEN conjunct2, THEN conjunct2,
        of "''agent-B''"
           "[jobJ1, jobJ1\<lparr>Job_AgentID := Some ''agent-B'', Job_Status := JobRunning\<rparr>,
             jobJ1\<lparr>Job_AgentID := Some ''agent-B'', Job_Status := JobRunning,
                   Job_Signaled := Some True\<rparr>]"]
    then have "\<forall>j \<in> set [jobJ1\<lparr>Job_AgentID := Some ''agent-B'', Job_Status := JobRunning,
                                  Job_Signaled := Some True\<rparr>].
        Job_AgentID j = Some ''agent-B'' \<and>
        (Job_Status j = JobAllocated \<or> (Job_Status j = JobRunning \<and> Job_Signaled j \<noteq> None))"
      by (simp only: c5)
    then show ?thesis by simp
  qed
  from c1 c2 c3 c4 c5 c6 show ?thesis by (intro conjI) simp_all
qed

section \<open>Pools and workspaces\<close>



lemma deleteAgentPool_referenced:
  assumes "getPool s poolID = Inr pool" and "Pool_AssignedWorkspaces pool \<noteq> []"
  shows "snd (deleteAgentPool D c poolID s) = s \<and>
         (\<exists>err. fst (deleteAgentPool D c poolID s) = Inl err) \<and>
         (CanAccess D c DeleteAgentPoolAction (Pool_Organization pool) = Inr subject \<longrightarrow>
            deleteAgentPool D c poolID s = (Inl ErrCannotDeletePoolReferencedByWorkspaces, s))"
  using assms by (auto simp: deleteAgentPool_def split: sum.splits)

lemma deleteAgentPool_effect:
  "snd (deleteAgentPool D c poolID s) = s \<or>
   (\<exists>pool. getPool s poolID = Inr pool \<and> Pool_AssignedWorkspaces pool = [] \<and>
      deleteAgentPool D c poolID s = (Inr pool, snd (db_deleteAgentPool (Pool_ID pool) s)))"
  by (auto simp: deleteAgentPool_def db_deleteAgentPool_def split: sum.splits)

text \<open>
  Claim C6. For a pool whose \<open>AssignedWorkspaces\<close> is non-empty, \<open>deleteAgentPool\<close>
  returns an error and leaves the store as it was; for a caller the authorizer lets
  in, the error is \<open>ErrCannotDeletePoolReferencedByWorkspaces\<close>. The store changes only
  through the store's delete, and only for a pool whose \<open>AssignedWorkspaces\<close> is empty.
\<close>

theorem deleteAgentPool_contract:
  "(getPool s poolID = Inr pool \<and> Pool_AssignedWorkspaces pool \<noteq> [] \<longrightarrow>
      snd (deleteAgentPool D c poolID s) = s \<and>
      (\<exists>err. fst (deleteAgentPool D c poolID s) = Inl err) \<and>
      (CanAccess D c DeleteAgentPoolAction (Pool_Organization pool) = Inr subject \<longrightarrow>
         deleteAgentPool D c poolID s = (Inl ErrCannotDeletePoolReferencedByWorkspaces, s)))
   \<and> (snd (deleteAgentPool D c poolID s) = s \<or>
       (\<exists>pool. getPool s poolID = Inr pool \<and> Pool_AssignedWorkspaces pool = [] \<and>
          deleteAgentPool D c poolID s = (Inr pool, snd (db_deleteAgentPool (Pool_ID pool) s))))"
  using deleteAgentPool_referenced [of s poolID pool D c subject] deleteAgentPool_effect [of D c poolID s]
  by blast

theorem deleteAgentPool_contract_witness:
  "deleteAgentPool deps0 (Some (User ''alice'')) ''pool-P''
     (st0\<lparr>pools := [poolP\<lparr>Pool_AssignedWorkspaces := [''ws-W1'']\<rparr>]\<rparr>) =
     (Inl ErrCannotDeletePoolReferencedByWorkspaces,
      st0\<lparr>pools := [poolP\<lparr>Pool_AssignedWorkspaces := [''ws-W1'']\<rparr>]\<rparr>)
   \<and> snd (deleteAgentPool deps0 (Some (ServerAgent agentA)) ''pool-P''
        (st0\<lparr>pools := [poolP\<lparr>Pool_AssignedWorkspaces := [''ws-W1'']\<rparr>]\<rparr>)) =
       st0\<lparr>pools := [poolP\<lparr>Pool_AssignedWorkspaces := [''ws-W1'']\<rparr>]\<rparr>
   \<and> deleteAgentPool deps0 (Some (User ''alice'')) ''pool-P'' st0 = (Inr poolP, st0\<lparr>pools := []\<rparr>)"
proof -
  have referenced: "getPool (st0\<lparr>pools := [poolP\<lparr>Pool_AssignedWorkspaces := [''ws-W1'']\<rparr>]\<rparr>)
        ''pool-P'' = Inr (poolP\<lparr>Pool_AssignedWorkspaces := [''ws-W1'']\<rparr>)"
    by (simp add: getPool_def poolP_def)
  have user: "CanAccess deps0 (Some (User ''alice'')) DeleteAgentPoolAction
        (Pool_Organization (poolP\<lparr>Pool_AssignedWorkspaces := [''ws-W1'']\<rparr>)) = Inr (User ''alice'')"
    by (simp add: deps0_def)
  note ref = deleteAgentPool_contract [THEN conjunct1, rule_format, OF conjI, OF referenced]
  have c1: "deleteAgentPool deps0 (Some (User ''alice'')) ''pool-P''
     (st0\<lparr>pools := [poolP\<lparr>Pool_AssignedWorkspaces := [''ws-W1'']\<rparr>]\<rparr>) =
     (Inl ErrCannotDeletePoolReferencedByWorkspaces,
      st0\<lparr>pools := [poolP\<lparr>Pool_AssignedWorkspaces := [''ws-W1'']\<rparr>]\<rparr>)"
    using ref [THEN conjunct2, THEN conjunct2, of deps0 "Some (User ''alice'')" "User ''alice''"] user
    by simp
  have c2: "snd (deleteAgentPool deps0 (Some (ServerAgent agentA)) ''pool-P''
        (st0\<lparr>pools := [poolP\<lparr>Pool_AssignedWorkspaces := [''ws-W1'']\<rparr>]\<rparr>)) =
       st0\<lparr>pools := [poolP\<lparr>Pool_AssignedWorkspaces := [''ws-W1'']\<rparr>]\<rparr>"
    using ref [THEN conjunct1, of deps0 "Some (ServerAgent agentA)"]
    by simp
  have c3: "deleteAgentPool deps0 (Some (User ''alice'')) ''pool-P'' st0 =
      (Inr poolP, st0\<lparr>pools := []\<rparr>)"
    by (simp add: deleteAgentPool_def getPool_def db_deleteAgentPool_def st0_def poolP_def deps0_def)
  from c1 c2 c3 show ?thesis by (intro conjI)
qed

section \<open>Agent status\<close>

lemma updateAgentStatus_subject_Inr:
  "updateAgentStatus_subject subject agentID = Inr isAgent \<Longrightarrow>
   subject = Manager \<or>
   (\<exists>a. subject = ServerAgent a \<and> Agent_ID a = agentID) \<or>
   (\<exists>a p t. subject = PoolAgent a p t \<and> Agent_ID a = agentID)"
  by (cases subject) (auto simp: updateAgentStatus_subject_def split: if_splits)

lemma updateAgentStatus_subject_Inl:
  "updateAgentStatus_subject subject agentID = Inl err \<Longrightarrow> err = ErrAccessNotPermitted"
  by (cases subject) (auto simp: updateAgentStatus_subject_def split: if_splits)

lemma updateAgentStatus_denied:
  assumes "SubjectFromContext c = Inr subject"
    and "subject \<noteq> Manager"
    and "\<forall>a. subject = ServerAgent a \<longrightarrow> Agent_ID a \<noteq> agentID"
    and "\<forall>a p t. subject = PoolAgent a p t \<longrightarrow> Agent_ID a \<noteq> agentID"
  shows "updateAgentStatus D c agentID to s = (Some ErrAccessNotPermitted, s)"
proof (cases "updateAgentStatus_subject subject agentID")
  case (Inl err)
  with updateAgentStatus_subject_Inl [OF Inl] assms(1) show ?thesis
    by (simp add: updateAgentStatus_def)
next
  case (Inr isAgent)
  from updateAgentStatus_subject_Inr [OF Inr] assms(2-4) show ?thesis by blast
qed

lemma updateAgentStatus_only_permitted:
  assumes "fst (updateAgentStatus D c agentID to s) = None \<or> snd (updateAgentStatus D c agentID to s) \<noteq> s"
  shows "c = Some Manager \<or>
     (\<exists>a. c = Some (ServerAgent a) \<and> Agent_ID a = agentID) \<or>
     (\<exists>a p t. c = Some (PoolAgent a p t) \<and> Agent_ID a = agentID)"
proof (cases c)
  case None
  with assms show ?thesis by (simp add: updateAgentStatus_def SubjectFromContext_def)
next
  case (Some subject)
  show ?thesis
  proof (cases "updateAgentStatus_subject subject agentID")
    case (Inl err)
    with assms Some show ?thesis by (simp add: updateAgentStatus_def SubjectFromContext_def)
  next
    case (Inr isAgent)
    from updateAgentStatus_subject_Inr [OF Inr] Some show ?thesis by simp
  qed
qed

text \<open>
  Claim C7. For a caller with a subject, \<open>updateAgentStatus\<close> is rejected with
  \<open>ErrAccessNotPermitted\<close>, and leaves the store as it was, unless the subject is the
  manager or a registered server or pool agent whose ID equals \<open>agentID\<close>. For every
  call: it succeeds, or changes the store, only for such a subject, so no other kind
  of subject can bring an agent into any status, \<open>unknown\<close> and \<open>errored\<close> included.
\<close>

theorem updateAgentStatus_contract:
  "(SubjectFromContext c = Inr subject \<and> subject \<noteq> Manager \<and>
      (\<forall>a. subject = ServerAgent a \<longrightarrow> Agent_ID a \<noteq> agentID) \<and>
      (\<forall>a p t. subject = PoolAgent a p t \<longrightarrow> Agent_ID a \<noteq> agentID) \<longrightarrow>
    updateAgentStatus D c agentID to s = (Some ErrAccessNotPermitted, s))
   \<and> (fst (updateAgentStatus D c agentID to s) = None \<or>
       snd (updateAgentStatus D c agentID to s) \<noteq> s \<longrightarrow>
       c = Some Manager \<or>
       (\<exists>a. c = Some (ServerAgent a) \<and> Agent_ID a = agentID) \<or>
       (\<exists>a p t. c = Some (PoolAgent a p t) \<and> Agent_ID a = agentID))"
  using updateAgentStatus_denied [of c subject agentID D to s]
    updateAgentStatus_only_permitted [of D c agentID to s]
  by blast

theorem updateAgentStatus_contract_witness:
  "updateAgentStatus deps0 (Some (User ''alice'')) ''agent-A'' AgentErrored st0 =
     (Some ErrAccessNotPermitted, st0)
   \<and> updateAgentStatus deps0 (Some (ServerAgent agentB)) ''agent-A'' AgentUnknown st0 =
       (Some ErrAccessNotPermitted, st0)
   \<and> updateAgentStatus deps0 (Some (JobSubject jobJ1)) ''agent-A'' AgentUnknown st0 =
       (Some ErrAccessNotPermitted, st0)
   \<and> fst (updateAgentStatus deps0 None ''agent-A'' AgentErrored st0) \<noteq> None
   \<and> snd (updateAgentStatus deps0 None ''agent-A'' AgentErrored st0) = st0
   \<and> updateAgentStatus deps0 (Some Manager) ''agent-A'' AgentUnknown st0 =
       (None, st0\<lparr>agents := [agentA\<lparr>Agent_Status := AgentUnknown\<rparr>]\<rparr>)"
proof -
  have subj: "SubjectFromContext (Some (User ''alice'')) = Inr (User ''alice'')"
    "SubjectFromContext (Some (ServerAgent agentB)) = Inr (ServerAgent agentB)"
    "SubjectFromContext (Some (JobSubject jobJ1)) = Inr (JobSubject jobJ1)"
    "SubjectFromContext (Some Manager) = Inr Manager"
    by (simp_all add: SubjectFromContext_def)
  have c1: "updateAgentStatus deps0 (Some (User ''alice'')) ''agent-A'' AgentErrored st0 =
     (Some ErrAccessNotPermitted, st0)"
    using updateAgentStatus_contract [THEN conjunct1,
        of "Some (User ''alice'')" "User ''alice''" "''agent-A''" deps0 AgentErrored st0] subj(1)
    by simp
  have c2: "updateAgentStatus deps0 (Some (ServerAgent agentB)) ''agent-A'' AgentUnknown st0 =
       (Some ErrAccessNotPermitted, st0)"
    using updateAgentStatus_contract [THEN conjunct1,
        of "Some (ServerAgent agentB)" "ServerAgent agentB" "''agent-A''" deps0 AgentUnknown st0]
      subj(2)
    by (simp add: agentB_def)
  have c3: "updateAgentStatus deps0 (Some (JobSubject jobJ1)) ''agent-A'' AgentUnknown st0 =
       (Some ErrAccessNotPermitted, st0)"
    using updateAgentStatus_contract [THEN conjunct1,
        of "Some (JobSubject jobJ1)" "JobSubject jobJ1" "''agent-A''" deps0 AgentUnknown st0]
      subj(3)
    by simp
  have c4: "fst (updateAgentStatus deps0 None ''agent-A'' AgentErrored st0) \<noteq> None \<and>
      snd (updateAgentStatus deps0 None ''agent-A'' AgentErrored st0) = st0"
    using updateAgentStatus_contract [THEN conjunct2, of deps0 None "''agent-A''" AgentErrored st0]
    by simp
  have c5: "updateAgentStatus deps0 (Some Manager) ''agent-A'' AgentUnknown st0 =
       (None, st0\<lparr>agents := [agentA\<lparr>Agent_Status := AgentUnknown\<rparr>]\<rparr>)"
    by (simp add: updateAgentStatus_def subj(4) updateAgentStatus_subject_def updateAgent_def
        st0_def agentA_def deps0_def)
  from c1 c2 c3 c4 c5 show ?thesis by (intro conjI) simp_all
qed

section \<open>The log proxy\<close>

lemma cache_Set_entries:
  "entries (snd (cache_Set c key v)) =
     (if rejects c key v then entries c else (entries c)(key \<mapsto> v))"
  by (simp add: cache_Set_def)

lemma proxy0_fields:
  "entries (cache proxy0) ''run-R.plan.log'' = Some ''stale''"
  "entries (cache proxy0) ''run-R.apply.log'' = None"
  "rejects (cache proxy0) key v = False"
  "getLogs logstore (db proxy0) ''run-R'' ''apply'' = Inr ''initapply''"
  by (simp_all add: proxy0_def logstore_def)

lemma cacheKey_values:
  "cacheKey ''run-R'' ''plan'' = ''run-R.plan.log''"
  "cacheKey ''run-R'' ''apply'' = ''run-R.apply.log''"
  by (simp_all add: cacheKey_def)

text \<open>
  Claim C3. For a chunk the loop of \<open>Start\<close> processes, with the key
  \<open>runID.phase.log\<close>: if its offset is 0, the proxy sets the cache entry of the key to
  the chunk's data, whatever was cached before; if its offset is not 0 and the key is
  cached, it sets the entry to the cached bytes followed by the chunk's data; if its
  offset is not 0 and the key is not cached, it sets the entry to the logs \<open>getLogs\<close>
  returns. A \<open>Set\<close> the cache accepts leaves exactly that value under the key. The
  loop goes on with the proxy so updated.
\<close>

theorem Start_chunk_sets_cache_entry:
  "(Chunk_Offset chunk = 0 \<longrightarrow>
      Start_chunk P chunk p =
        Inr (p\<lparr>cache := snd (cache_Set (cache p)
                                (cacheKey (Chunk_RunID chunk) (Chunk_Phase chunk))
                                (Chunk_Data chunk))\<rparr>))
   \<and> (Chunk_Offset chunk \<noteq> 0 \<and>
        entries (cache p) (cacheKey (Chunk_RunID chunk) (Chunk_Phase chunk)) = Some existing \<longrightarrow>
      Start_chunk P chunk p =
        Inr (p\<lparr>cache := snd (cache_Set (cache p)
                                (cacheKey (Chunk_RunID chunk) (Chunk_Phase chunk))
                                (existing @ Chunk_Data chunk))\<rparr>))
   \<and> (Chunk_Offset chunk \<noteq> 0 \<and>
        entries (cache p) (cacheKey (Chunk_RunID chunk) (Chunk_Phase chunk)) = None \<and>
        getLogs P (db p) (Chunk_RunID chunk) (Chunk_Phase chunk) = Inr full \<longrightarrow>
      Start_chunk P chunk p =
        Inr (p\<lparr>cache := snd (cache_Set (cache p)
                                (cacheKey (Chunk_RunID chunk) (Chunk_Phase chunk))
                                full)\<rparr>))
   \<and> (\<not> rejects (cache p) key logs \<longrightarrow>
        entries (snd (cache_Set (cache p) key logs)) = (entries (cache p))(key \<mapsto> logs))
   \<and> cacheKey runID phase = runID @ ''.'' @ phase @ ''.log''
   \<and> Start P (chunk # sub) p =
       (case Start_chunk P chunk p of Inl err \<Rightarrow> (err, p) | Inr p' \<Rightarrow> Start P sub p')"
  by (simp add: Start_chunk_def Start_logs_def IsStart_def cache_Get_def cache_Set_entries
      cacheKey_def)

theorem Start_chunk_sets_cache_entry_witness:
  "Start_chunk logstore
     \<lparr>Chunk_RunID = ''run-R'', Chunk_Phase = ''plan'', Chunk_Data = ''new'', Chunk_Offset = 0\<rparr>
     proxy0 =
     Inr (proxy0\<lparr>cache := snd (cache_Set (cache proxy0) ''run-R.plan.log'' ''new'')\<rparr>)
   \<and> entries (snd (cache_Set (cache proxy0) ''run-R.plan.log'' ''new'')) ''run-R.plan.log'' =
       Some ''new''
   \<and> Start_chunk logstore
       \<lparr>Chunk_RunID = ''run-R'', Chunk_Phase = ''plan'', Chunk_Data = ''more'', Chunk_Offset = 5\<rparr>
       proxy0 =
       Inr (proxy0\<lparr>cache := snd (cache_Set (cache proxy0) ''run-R.plan.log'' ''stalemore'')\<rparr>)
   \<and> Start_chunk logstore
       \<lparr>Chunk_RunID = ''run-R'', Chunk_Phase = ''apply'', Chunk_Data = ''apply'', Chunk_Offset = 4\<rparr>
       proxy0 =
       Inr (proxy0\<lparr>cache := snd (cache_Set (cache proxy0) ''run-R.apply.log'' ''initapply'')\<rparr>)
   \<and> cacheKey ''run-R'' ''plan'' = ''run-R.plan.log''"
proof -
  have c1: "Start_chunk logstore
     \<lparr>Chunk_RunID = ''run-R'', Chunk_Phase = ''plan'', Chunk_Data = ''new'', Chunk_Offset = 0\<rparr>
     proxy0 =
     Inr (proxy0\<lparr>cache := snd (cache_Set (cache proxy0) ''run-R.plan.log'' ''new'')\<rparr>)"
    using Start_chunk_sets_cache_entry [THEN conjunct1,
        of "\<lparr>Chunk_RunID = ''run-R'', Chunk_Phase = ''plan'', Chunk_Data = ''new'',
             Chunk_Offset = 0\<rparr>" logstore proxy0]
    by (simp add: cacheKey_values)
  have c2: "entries (snd (cache_Set (cache proxy0) ''run-R.plan.log'' ''new'')) ''run-R.plan.log'' =
       Some ''new''"
    using Start_chunk_sets_cache_entry [THEN conjunct2, THEN conjunct2, THEN conjunct2,
        THEN conjunct1, of proxy0 "''run-R.plan.log''" "''new''"]
    by (simp add: proxy0_fields)
  have c3: "Start_chunk logstore
       \<lparr>Chunk_RunID = ''run-R'', Chunk_Phase = ''plan'', Chunk_Data = ''more'', Chunk_Offset = 5\<rparr>
       proxy0 =
       Inr (proxy0\<lparr>cache := snd (cache_Set (cache proxy0) ''run-R.plan.log'' ''stalemore'')\<rparr>)"
    using Start_chunk_sets_cache_entry [THEN conjunct2, THEN conjunct1,
        of "\<lparr>Chunk_RunID = ''run-R'', Chunk_Phase = ''plan'', Chunk_Data = ''more'',
             Chunk_Offset = 5\<rparr>" proxy0 "''stale''" logstore]
    by (simp add: cacheKey_values proxy0_fields)
  have c4: "Start_chunk logstore
       \<lparr>Chunk_RunID = ''run-R'', Chunk_Phase = ''apply'', Chunk_Data = ''apply'', Chunk_Offset = 4\<rparr>
       proxy0 =
       Inr (proxy0\<lparr>cache := snd (cache_Set (cache proxy0) ''run-R.apply.log'' ''initapply'')\<rparr>)"
    using Start_chunk_sets_cache_entry [THEN conjunct2, THEN conjunct2, THEN conjunct1,
        of "\<lparr>Chunk_RunID = ''run-R'', Chunk_Phase = ''apply'', Chunk_Data = ''apply'',
             Chunk_Offset = 4\<rparr>" proxy0 logstore "''initapply''"]
    by (simp add: cacheKey_values proxy0_fields)
  have c5: "cacheKey ''run-R'' ''plan'' = ''run-R.plan.log''"
    using Start_chunk_sets_cache_entry [THEN conjunct2, THEN conjunct2, THEN conjunct2,
        THEN conjunct2, THEN conjunct1, of "''run-R''" "''plan''"]
    by simp
  from c1 c2 c3 c4 c5 show ?thesis by (intro conjI)
qed

text \<open>
  Claim C8. When the cache holds the key, \<open>get\<close> uses the cached bytes and leaves the
  proxy as it was. On a miss it reads the bytes from the store and sets the cache
  entry of the key to them. In both cases the data of the chunk returned is the
  bytes restricted to \<open>[Offset, Offset + Limit)\<close>, clipped to their length. When the
  cache refuses the entry, \<open>get\<close> still returns that chunk, with the cache unchanged.
\<close>

theorem proxy_get_contract:
  "(entries (cache p) (cacheKey (Get_RunID opts) (Get_Phase opts)) = Some data \<longrightarrow>
      proxy_get P opts p =
        (Inr \<lparr>Chunk_RunID = Get_RunID opts, Chunk_Phase = Get_Phase opts,
              Chunk_Data = take (Get_Limit opts) (drop (Get_Offset opts) data),
              Chunk_Offset = 0\<rparr>, p))
   \<and> (entries (cache p) (cacheKey (Get_RunID opts) (Get_Phase opts)) = None \<and>
        getLogs P (db p) (Get_RunID opts) (Get_Phase opts) = Inr data \<longrightarrow>
      proxy_get P opts p =
        (Inr \<lparr>Chunk_RunID = Get_RunID opts, Chunk_Phase = Get_Phase opts,
              Chunk_Data = take (Get_Limit opts) (drop (Get_Offset opts) data),
              Chunk_Offset = 0\<rparr>,
         p\<lparr>cache := snd (cache_Set (cache p) (cacheKey (Get_RunID opts) (Get_Phase opts)) data)\<rparr>))
   \<and> (entries (cache p) (cacheKey (Get_RunID opts) (Get_Phase opts)) = None \<and>
        getLogs P (db p) (Get_RunID opts) (Get_Phase opts) = Inr data \<and>
        \<not> rejects (cache p) (cacheKey (Get_RunID opts) (Get_Phase opts)) data \<longrightarrow>
      entries (cache (snd (proxy_get P opts p))) =
        (entries (cache p))(cacheKey (Get_RunID opts) (Get_Phase opts) \<mapsto> data))
   \<and> (entries (cache p) (cacheKey (Get_RunID opts) (Get_Phase opts)) = None \<and>
        getLogs P (db p) (Get_RunID opts) (Get_Phase opts) = Inr data \<and>
        rejects (cache p) (cacheKey (Get_RunID opts) (Get_Phase opts)) data \<longrightarrow>
      fst (cache_Set (cache p) (cacheKey (Get_RunID opts) (Get_Phase opts)) data) \<noteq> None \<and>
      proxy_get P opts p =
        (Inr \<lparr>Chunk_RunID = Get_RunID opts, Chunk_Phase = Get_Phase opts,
              Chunk_Data = take (Get_Limit opts) (drop (Get_Offset opts) data),
              Chunk_Offset = 0\<rparr>, p))"
  by (simp add: proxy_get_def cache_Get_def Cut_def cache_Set_def)

theorem proxy_get_contract_witness:
  "proxy_get logstore
     \<lparr>Get_RunID = ''run-R'', Get_Phase = ''plan'', Get_Limit = 3, Get_Offset = 1\<rparr> proxy0 =
     (Inr \<lparr>Chunk_RunID = ''run-R'', Chunk_Phase = ''plan'', Chunk_Data = ''tal'',
           Chunk_Offset = 0\<rparr>, proxy0)
   \<and> proxy_get logstore
       \<lparr>Get_RunID = ''run-R'', Get_Phase = ''apply'', Get_Limit = 10, Get_Offset = 4\<rparr> proxy0 =
       (Inr \<lparr>Chunk_RunID = ''run-R'', Chunk_Phase = ''apply'', Chunk_Data = ''apply'',
             Chunk_Offset = 0\<rparr>,
        proxy0\<lparr>cache := snd (cache_Set (cache proxy0) ''run-R.apply.log'' ''initapply'')\<rparr>)
   \<and> entries (cache (snd (proxy_get logstore
        \<lparr>Get_RunID = ''run-R'', Get_Phase = ''apply'', Get_Limit = 10, Get_Offset = 4\<rparr> proxy0))) =
       (entries (cache proxy0))(''run-R.apply.log'' \<mapsto> ''initapply'')
   \<and> proxy_get logstore
       \<lparr>Get_RunID = ''run-R'', Get_Phase = ''apply'', Get_Limit = 4, Get_Offset = 0\<rparr>
       (proxy0\<lparr>cache := (cache proxy0)\<lparr>rejects := (\<lambda>key v. True)\<rparr>\<rparr>) =
       (Inr \<lparr>Chunk_RunID = ''run-R'', Chunk_Phase = ''apply'', Chunk_Data = ''init'',
             Chunk_Offset = 0\<rparr>,
        proxy0\<lparr>cache := (cache proxy0)\<lparr>rejects := (\<lambda>key v. True)\<rparr>\<rparr>)"
proof -
  have c1: "proxy_get logstore
     \<lparr>Get_RunID = ''run-R'', Get_Phase = ''plan'', Get_Limit = 3, Get_Offset = 1\<rparr> proxy0 =
     (Inr \<lparr>Chunk_RunID = ''run-R'', Chunk_Phase = ''plan'', Chunk_Data = ''tal'',
           Chunk_Offset = 0\<rparr>, proxy0)"
    using proxy_get_contract [THEN conjunct1,
        of proxy0 "\<lparr>Get_RunID = ''run-R'', Get_Phase = ''plan'', Get_Limit = 3, Get_Offset = 1\<rparr>"
           "''stale''" logstore]
    by (simp add: cacheKey_values proxy0_fields)
  have c2: "proxy_get logstore
       \<lparr>Get_RunID = ''run-R'', Get_Phase = ''apply'', Get_Limit = 10, Get_Offset = 4\<rparr> proxy0 =
       (Inr \<lparr>Chunk_RunID = ''run-R'', Chunk_Phase = ''apply'', Chunk_Data = ''apply'',
             Chunk_Offset = 0\<rparr>,
        proxy0\<lparr>cache := snd (cache_Set (cache proxy0) ''run-R.apply.log'' ''initapply'')\<rparr>)"
    using proxy_get_contract [THEN conjunct2, THEN conjunct1,
        of proxy0 "\<lparr>Get_RunID = ''run-R'', Get_Phase = ''apply'', Get_Limit = 10, Get_Offset = 4\<rparr>"
           logstore "''initapply''"]
    by (simp add: cacheKey_values proxy0_fields)
  have c3: "entries (cache (snd (proxy_get logstore
        \<lparr>Get_RunID = ''run-R'', Get_Phase = ''apply'', Get_Limit = 10, Get_Offset = 4\<rparr> proxy0))) =
       (entries (cache proxy0))(''run-R.apply.log'' \<mapsto> ''initapply'')"
    using proxy_get_contract [THEN conjunct2, THEN conjunct2, THEN conjunct1,
        of proxy0 "\<lparr>Get_RunID = ''run-R'', Get_Phase = ''apply'', Get_Limit = 10, Get_Offset = 4\<rparr>"
           logstore "''initapply''"]
    by (simp add: cacheKey_values proxy0_fields)
  have full: "entries (cache (proxy0\<lparr>cache := (cache proxy0)\<lparr>rejects := (\<lambda>key v. True)\<rparr>\<rparr>))
        ''run-R.apply.log'' = None"
    "getLogs logstore (db (proxy0\<lparr>cache := (cache proxy0)\<lparr>rejects := (\<lambda>key v. True)\<rparr>\<rparr>))
        ''run-R'' ''apply'' = Inr ''initapply''"
    by (simp_all add: proxy0_fields)
  have c4: "proxy_get logstore
       \<lparr>Get_RunID = ''run-R'', Get_Phase = ''apply'', Get_Limit = 4, Get_Offset = 0\<rparr>
       (proxy0\<lparr>cache := (cache proxy0)\<lparr>rejects := (\<lambda>key v. True)\<rparr>\<rparr>) =
       (Inr \<lparr>Chunk_RunID = ''run-R'', Chunk_Phase = ''apply'', Chunk_Data = ''init'',
             Chunk_Offset = 0\<rparr>,
        proxy0\<lparr>cache := (cache proxy0)\<lparr>rejects := (\<lambda>key v. True)\<rparr>\<rparr>)"
    using proxy_get_contract [THEN conjunct2, THEN conjunct2, THEN conjunct2,
        of "proxy0\<lparr>cache := (cache proxy0)\<lparr>rejects := (\<lambda>key v. True)\<rparr>\<rparr>"
           "\<lparr>Get_RunID = ''run-R'', Get_Phase = ''apply'', Get_Limit = 4, Get_Offset = 0\<rparr>"
           logstore "''initapply''"] full
    by (simp add: cacheKey_values)
  from c1 c2 c3 c4 show ?thesis by (intro conjI)
qed

text \<open>
  Claim C9. \<open>put\<close> only writes to the backing store: the proxy it leaves has the cache
  it had and the store that the store's \<open>put\<close> returns, its result is the error of that
  \<open>put\<close>, and neither depends on what the cache holds.
\<close>

theorem proxy_put_contract:
  "cache (snd (proxy_put P opts p)) = cache p
   \<and> db (snd (proxy_put P opts p)) = snd (put P (db p) opts)
   \<and> fst (proxy_put P opts p) =
       (case fst (put P (db p) opts) of Inl err \<Rightarrow> Some err | Inr x \<Rightarrow> None)
   \<and> fst (proxy_put P opts (p\<lparr>cache := c'\<rparr>)) = fst (proxy_put P opts p)
   \<and> db (snd (proxy_put P opts (p\<lparr>cache := c'\<rparr>))) = db (snd (proxy_put P opts p))"
  by (cases "put P (db p) opts") (auto simp: proxy_put_def split: sum.splits)

theorem proxy_put_contract_witness:
  "cache (snd (proxy_put logstore
      \<lparr>Put_RunID = ''run-R'', Put_Phase = ''plan'', Put_Data = ''init'', Put_Offset = 0\<rparr> proxy0)) =
     cache proxy0
   \<and> db (snd (proxy_put logstore
      \<lparr>Put_RunID = ''run-R'', Put_Phase = ''plan'', Put_Data = ''init'', Put_Offset = 0\<rparr> proxy0)) =
     (db proxy0)((''run-R'', ''plan'') \<mapsto> ''init'')
   \<and> fst (proxy_put logstore
      \<lparr>Put_RunID = ''run-R'', Put_Phase = ''plan'', Put_Data = ''init'', Put_Offset = 0\<rparr> proxy0) =
     None"
  using proxy_put_contract [of logstore
      "\<lparr>Put_RunID = ''run-R'', Put_Phase = ''plan'', Put_Data = ''init'', Put_Offset = 0\<rparr>" proxy0]
  by (simp add: logstore_def proxy0_def)

subsection \<open>A whole run of the loop\<close>

text \<open>
  Scenarios 1 and 6 of section 8 of the spec: when the subscription delivers a start
  chunk and then further chunks of the same run and phase, and the cache accepts
  every entry, \<open>Start\<close> ends with \<open>ErrSubscriptionTerminated\<close> once the channel closes,
  and the cache entry of the key is the data of all the chunks in order, whatever
  was cached under the key before.
\<close>

lemma Start_appends:
  assumes "\<forall>c \<in> set cs. Chunk_RunID c = runID \<and> Chunk_Phase c = phase \<and> Chunk_Offset c \<noteq> 0"
    and "entries (cache p) (cacheKey runID phase) = Some existing"
    and "\<forall>key v. \<not> rejects (cache p) key v"
  shows "Start P cs p =
     (ErrSubscriptionTerminated,
      p\<lparr>cache := (cache p)\<lparr>entries := (entries (cache p))
          (cacheKey runID phase \<mapsto> existing @ concat (map Chunk_Data cs))\<rparr>\<rparr>)"
  using assms
proof (induction cs arbitrary: p existing)
  case Nil
  then have "(entries (cache p))(cacheKey runID phase \<mapsto> existing) = entries (cache p)"
    by (simp add: map_upd_triv)
  then show ?case by simp
next
  case (Cons c cs)
  let ?p' = "p\<lparr>cache := (cache p)\<lparr>entries := (entries (cache p))
          (cacheKey runID phase \<mapsto> existing @ Chunk_Data c)\<rparr>\<rparr>"
  from Cons.prems have step: "Start_chunk P c p = Inr ?p'"
    by (simp add: Start_chunk_def Start_logs_def IsStart_def cache_Get_def cache_Set_def)
  then have a: "Start P (c # cs) p = Start P cs ?p'"
    by simp
  have b: "Start P cs ?p' =
     (ErrSubscriptionTerminated,
      ?p'\<lparr>cache := (cache ?p')\<lparr>entries := (entries (cache ?p'))
          (cacheKey runID phase \<mapsto> (existing @ Chunk_Data c) @ concat (map Chunk_Data cs))\<rparr>\<rparr>)"
    using Cons.prems by (intro Cons.IH) simp_all
  have c: "?p'\<lparr>cache := (cache ?p')\<lparr>entries := (entries (cache ?p'))
          (cacheKey runID phase \<mapsto> (existing @ Chunk_Data c) @ concat (map Chunk_Data cs))\<rparr>\<rparr> =
      p\<lparr>cache := (cache p)\<lparr>entries := (entries (cache p))
          (cacheKey runID phase \<mapsto> existing @ concat (map Chunk_Data (c # cs)))\<rparr>\<rparr>"
    by simp
  show ?case unfolding a b c by (rule refl)
qed

lemma Start_accumulates:
  assumes "Chunk_Offset c = 0"
    and "\<forall>c' \<in> set cs. Chunk_RunID c' = Chunk_RunID c \<and> Chunk_Phase c' = Chunk_Phase c \<and>
           Chunk_Offset c' \<noteq> 0"
    and "\<forall>key v. \<not> rejects (cache p) key v"
  shows "Start P (c # cs) p =
     (ErrSubscriptionTerminated,
      p\<lparr>cache := (cache p)\<lparr>entries := (entries (cache p))
          (cacheKey (Chunk_RunID c) (Chunk_Phase c) \<mapsto> concat (map Chunk_Data (c # cs)))\<rparr>\<rparr>)"
proof -
  let ?p' = "p\<lparr>cache := (cache p)\<lparr>entries := (entries (cache p))
          (cacheKey (Chunk_RunID c) (Chunk_Phase c) \<mapsto> Chunk_Data c)\<rparr>\<rparr>"
  from assms(1,3) have step: "Start_chunk P c p = Inr ?p'"
    by (simp add: Start_chunk_def Start_logs_def IsStart_def cache_Set_def)
  then have a: "Start P (c # cs) p = Start P cs ?p'"
    by simp
  have b: "Start P cs ?p' =
     (ErrSubscriptionTerminated,
      ?p'\<lparr>cache := (cache ?p')\<lparr>entries := (entries (cache ?p'))
          (cacheKey (Chunk_RunID c) (Chunk_Phase c) \<mapsto> Chunk_Data c @ concat (map Chunk_Data cs))\<rparr>\<rparr>)"
    using assms(2,3) by (intro Start_appends) simp_all
  have c: "?p'\<lparr>cache := (cache ?p')\<lparr>entries := (entries (cache ?p'))
          (cacheKey (Chunk_RunID c) (Chunk_Phase c) \<mapsto> Chunk_Data c @ concat (map Chunk_Data cs))\<rparr>\<rparr> =
      p\<lparr>cache := (cache p)\<lparr>entries := (entries (cache p))
          (cacheKey (Chunk_RunID c) (Chunk_Phase c) \<mapsto> concat (map Chunk_Data (c # cs)))\<rparr>\<rparr>"
    by simp
  show ?thesis unfolding a b c by (rule refl)
qed

lemma Start_fresh_phase:
  "Start logstore
     [\<lparr>Chunk_RunID = ''run-R'', Chunk_Phase = ''plan'', Chunk_Data = ''init'', Chunk_Offset = 0\<rparr>,
      \<lparr>Chunk_RunID = ''run-R'', Chunk_Phase = ''plan'', Chunk_Data = ''plan'', Chunk_Offset = 4\<rparr>]
     proxy0 =
     (ErrSubscriptionTerminated,
      proxy0\<lparr>cache := (cache proxy0)\<lparr>entries := [''run-R.plan.log'' \<mapsto> ''initplan'']\<rparr>\<rparr>)"
proof -
  have "Start logstore
     [\<lparr>Chunk_RunID = ''run-R'', Chunk_Phase = ''plan'', Chunk_Data = ''init'', Chunk_Offset = 0\<rparr>,
      \<lparr>Chunk_RunID = ''run-R'', Chunk_Phase = ''plan'', Chunk_Data = ''plan'', Chunk_Offset = 4\<rparr>]
     proxy0 =
     (ErrSubscriptionTerminated,
      proxy0\<lparr>cache := (cache proxy0)\<lparr>entries := (entries (cache proxy0))
          (cacheKey ''run-R'' ''plan'' \<mapsto> ''initplan'')\<rparr>\<rparr>)"
    using Start_accumulates [of
        "\<lparr>Chunk_RunID = ''run-R'', Chunk_Phase = ''plan'', Chunk_Data = ''init'', Chunk_Offset = 0\<rparr>"
        "[\<lparr>Chunk_RunID = ''run-R'', Chunk_Phase = ''plan'', Chunk_Data = ''plan'', Chunk_Offset = 4\<rparr>]"
        proxy0 logstore]
    by (simp add: proxy0_fields)
  then show ?thesis
    by (simp add: cacheKey_values proxy0_def)
qed

end
